theory Spec2Isabelle
  imports Main "HOL-Library.Sublist" "HOL-Library.AList"
begin

section \<open>JavaScript values and strings\<close>

text \<open>
  A JavaScript string is represented by its UTF-8 encoding, a list of bytes: the
  form in which Node.js hands a path to the operating system and, under the default
  encoding \<open>utf8\<close>, a text to a file. The code cuts strings at \<open>/\<close> and \<open>.\<close>
  only and compares them by prefix, which on well-formed strings gives the same
  results on the bytes as on the UTF-16 code units. A string with an unpaired
  surrogate has no UTF-8 encoding and is not represented.
\<close>

definition replacement :: string where
  "replacement = [CHR 0xEF, CHR 0xBF, CHR 0xBD]"

definition follows :: "nat \<Rightarrow> nat \<Rightarrow> string \<Rightarrow> bool" where
  "follows lo hi bs =
     (case bs of [] \<Rightarrow> False | c # cs \<Rightarrow> lo \<le> of_char c \<and> (of_char c :: nat) \<le> hi)"

text \<open>
  Decoding bytes as UTF-8, as \<open>buffer.toString()\<close> and a read with encoding
  \<open>utf8\<close> do: a well-formed sequence is kept; a byte that cannot start a sequence,
  and a sequence cut short by a byte that cannot continue it or by the end, is
  replaced by U+FFFD, and decoding goes on at the byte that did not fit.
\<close>

function utf8_decode :: "string \<Rightarrow> string" where
  "utf8_decode [] = []"
| "utf8_decode (b # bs) =
     (let n = (of_char b :: nat)
      in if n < 0x80 then b # utf8_decode bs
         else if 0xC2 \<le> n \<and> n \<le> 0xDF then
           (if \<not> follows 0x80 0xBF bs then replacement @ utf8_decode bs
            else b # hd bs # utf8_decode (tl bs))
         else if 0xE0 \<le> n \<and> n \<le> 0xEF then
           (if \<not> follows (if n = 0xE0 then 0xA0 else 0x80) (if n = 0xED then 0x9F else 0xBF) bs
            then replacement @ utf8_decode bs
            else if \<not> follows 0x80 0xBF (tl bs) then replacement @ utf8_decode (tl bs)
            else b # hd bs # hd (tl bs) # utf8_decode (tl (tl bs)))
         else if 0xF0 \<le> n \<and> n \<le> 0xF4 then
           (if \<not> follows (if n = 0xF0 then 0x90 else 0x80) (if n = 0xF4 then 0x8F else 0xBF) bs
            then replacement @ utf8_decode bs
            else if \<not> follows 0x80 0xBF (tl bs) then replacement @ utf8_decode (tl bs)
            else if \<not> follows 0x80 0xBF (tl (tl bs)) then replacement @ utf8_decode (tl (tl bs))
            else b # hd bs # hd (tl bs) # hd (tl (tl bs)) # utf8_decode (tl (tl (tl bs))))
         else replacement @ utf8_decode bs)"
  by pat_completeness auto
termination
  by (relation "measure length") auto

declare utf8_decode.simps(2) [simp del]

text \<open>Bytes are well-formed UTF-8 exactly when decoding replaces none of them.\<close>

definition well_formed :: "string \<Rightarrow> bool" where
  "well_formed s = (utf8_decode s = s)"

text \<open>
  Tool parameters are JavaScript values. The model keeps the distinctions the code
  tests: \<open>undefined\<close> (defaults apply), falsiness (\<open>!filepath\<close>), being a string
  (\<open>filepath.trim\<close>), and \<open>typeof content === 'object'\<close> with or without
  \<open>Buffer.isBuffer\<close>. \<open>JStr s\<close> stands for a string when \<open>s\<close> is well-formed;
  a buffer holds any bytes. A number is represented by what the code observes of
  it: whether it is truthy (neither zero nor \<open>NaN\<close>) and the text of its conversion
  to a string. An object that is not a buffer is represented by its text
  \<open>JSON.stringify(content, null, 2)\<close>, the only thing the code computes from it.
\<close>

datatype jsval =
    JUndefined
  | JNull
  | JBool bool
  | JNum bool string
  | JStr string
  | JBuffer string
  | JObject string

datatype error = Error string | TypeError string

fun message :: "error \<Rightarrow> string" where
  "message (Error m) = m"
| "message (TypeError m) = m"

text \<open>
  String conversion, as a template literal \<open>`${v}`\<close>, a property key and \<open>+\<close> on
  a string perform it.
\<close>

fun js_to_string :: "jsval \<Rightarrow> string" where
  "js_to_string JUndefined = ''undefined''"
| "js_to_string JNull = ''null''"
| "js_to_string (JBool b) = (if b then ''true'' else ''false'')"
| "js_to_string (JNum truthy shown) = shown"
| "js_to_string (JStr s) = s"
| "js_to_string (JBuffer b) = utf8_decode b"
| "js_to_string (JObject j) = ''[object Object]''"

text \<open>\<open>!v\<close> is true exactly on the falsy values.\<close>

fun falsy :: "jsval \<Rightarrow> bool" where
  "falsy JUndefined = True"
| "falsy JNull = True"
| "falsy (JBool b) = (\<not> b)"
| "falsy (JNum truthy shown) = (\<not> truthy)"
| "falsy (JStr s) = (s = [])"
| "falsy (JBuffer b) = False"
| "falsy (JObject j) = False"

text \<open>
  How Node.js names a value in the message of \<open>ERR_INVALID_ARG_TYPE\<close>, after
  \<open>Received\<close>. (Negative zero, shown there as \<open>-0\<close>, is not told from zero.)
\<close>

fun received :: "jsval \<Rightarrow> string" where
  "received JUndefined = ''undefined''"
| "received JNull = ''null''"
| "received (JBool b) = ''type boolean ('' @ (if b then ''true'' else ''false'') @ '')''"
| "received (JNum truthy shown) = ''type number ('' @ shown @ '')''"
| "received (JStr s) = ''type string ('' @ [CHR 0x27] @ s @ [CHR 0x27] @ '')''"
| "received (JBuffer b) = ''an instance of Buffer''"
| "received (JObject j) = ''an instance of Object''"

text \<open>A parameter default \<open>x = d\<close> applies when the argument is \<open>undefined\<close>.\<close>

definition default_to :: "jsval \<Rightarrow> jsval \<Rightarrow> jsval" where
  "default_to d v = (if v = JUndefined then d else v)"

text \<open>
  The white space and line terminators that \<open>String.prototype.trim\<close> removes:
  U+0009 to U+000D, U+0020, U+00A0, U+1680, U+2000 to U+200A, U+2028, U+2029,
  U+202F, U+205F, U+3000 and U+FEFF, each in its encoding.
\<close>

definition whitespace :: "string list" where
  "whitespace =
     [[CHR 0x09], [CHR 0x0A], [CHR 0x0B], [CHR 0x0C], [CHR 0x0D], [CHR 0x20],
      [CHR 0xC2, CHR 0xA0],
      [CHR 0xE1, CHR 0x9A, CHR 0x80],
      [CHR 0xE2, CHR 0x80, CHR 0x80], [CHR 0xE2, CHR 0x80, CHR 0x81],
      [CHR 0xE2, CHR 0x80, CHR 0x82], [CHR 0xE2, CHR 0x80, CHR 0x83],
      [CHR 0xE2, CHR 0x80, CHR 0x84], [CHR 0xE2, CHR 0x80, CHR 0x85],
      [CHR 0xE2, CHR 0x80, CHR 0x86], [CHR 0xE2, CHR 0x80, CHR 0x87],
      [CHR 0xE2, CHR 0x80, CHR 0x88], [CHR 0xE2, CHR 0x80, CHR 0x89],
      [CHR 0xE2, CHR 0x80, CHR 0x8A],
      [CHR 0xE2, CHR 0x80, CHR 0xA8], [CHR 0xE2, CHR 0x80, CHR 0xA9],
      [CHR 0xE2, CHR 0x80, CHR 0xAF],
      [CHR 0xE2, CHR 0x81, CHR 0x9F],
      [CHR 0xE3, CHR 0x80, CHR 0x80],
      [CHR 0xEF, CHR 0xBB, CHR 0xBF]]"

function strip_leading :: "string list \<Rightarrow> string \<Rightarrow> string" where
  "strip_leading ws s =
     (case find (\<lambda>w. w \<noteq> [] \<and> prefix w s) ws of
        None \<Rightarrow> s
      | Some w \<Rightarrow> strip_leading ws (drop (length w) s))"
  by pat_completeness auto
termination
proof (relation "measure (\<lambda>(ws, s). length s)")
  show "wf (measure (\<lambda>(ws, s). length s))" by simp
next
  fix ws :: "string list" and s w :: string
  assume "find (\<lambda>w. w \<noteq> [] \<and> prefix w s) ws = Some w"
  then have "w \<noteq> [] \<and> prefix w s" by (auto simp: find_Some_iff)
  then have "s \<noteq> [] \<and> w \<noteq> []" by auto
  then show "((ws, drop (length w) s), (ws, s)) \<in> measure (\<lambda>(ws, s). length s)"
    by (cases s; cases w) auto
qed

declare strip_leading.simps [simp del]

definition trim :: "string \<Rightarrow> string" where
  "trim s = rev (strip_leading (map rev whitespace) (rev (strip_leading whitespace s)))"

definition startsWith :: "string \<Rightarrow> string \<Rightarrow> bool" where
  "startsWith s p = prefix p s"

definition endsWith :: "string \<Rightarrow> string \<Rightarrow> bool" where
  "endsWith s p = suffix p s"

fun join_with :: "string \<Rightarrow> string list \<Rightarrow> string" where
  "join_with sep [] = []"
| "join_with sep [x] = x"
| "join_with sep (x # y # ys) = x @ sep @ join_with sep (y # ys)"

fun split_on :: "char \<Rightarrow> string \<Rightarrow> string list" where
  "split_on c [] = [[]]"
| "split_on c (x # xs) =
     (if x = c then [] # split_on c xs
      else (case split_on c xs of
              [] \<Rightarrow> [[x]]
            | s # ss \<Rightarrow> (x # s) # ss))"

section \<open>The POSIX \<open>path\<close> module\<close>

text \<open>
  \<open>path.join\<close>, \<open>path.normalize\<close> and \<open>path.dirname\<close> of Node.js, on POSIX.
  \<open>normalizeString\<close> walks the segments between separators: an empty segment and
  \<open>.\<close> are dropped, \<open>..\<close> removes the last kept segment unless there is none or it
  is itself \<open>..\<close>, in which case \<open>..\<close> is kept when the path is relative
  (\<open>allowAboveRoot\<close>) and dropped when it is absolute.
\<close>

fun normalizeSegments :: "bool \<Rightarrow> string list \<Rightarrow> string list \<Rightarrow> string list" where
  "normalizeSegments allowAboveRoot res [] = res"
| "normalizeSegments allowAboveRoot res (s # ss) =
     (if s = [] \<or> s = ''.'' then normalizeSegments allowAboveRoot res ss
      else if s = ''..'' then
        (if res \<noteq> [] \<and> last res \<noteq> ''..'' then normalizeSegments allowAboveRoot (butlast res) ss
         else if allowAboveRoot then normalizeSegments allowAboveRoot (res @ [''..'']) ss
         else normalizeSegments allowAboveRoot res ss)
      else normalizeSegments allowAboveRoot (res @ [s]) ss)"

definition normalizeString :: "string \<Rightarrow> bool \<Rightarrow> string" where
  "normalizeString p allowAboveRoot =
     join_with ''/'' (normalizeSegments allowAboveRoot [] (split_on CHR ''/'' p))"

definition normalize :: "string \<Rightarrow> string" where
  "normalize p =
     (if p = [] then ''.''
      else
        let isAbsolute = (hd p = CHR ''/'');
            trailingSeparator = (last p = CHR ''/'');
            q = normalizeString p (\<not> isAbsolute)
        in if q = [] then
             (if isAbsolute then ''/'' else if trailingSeparator then ''./'' else ''.'')
           else
             (let q' = (if trailingSeparator then q @ ''/'' else q)
              in if isAbsolute then CHR ''/'' # q' else q'))"

definition path_join :: "string list \<Rightarrow> string" where
  "path_join args =
     (let parts = filter (\<lambda>a. a \<noteq> []) args
      in if parts = [] then ''.'' else normalize (join_with ''/'' parts))"

text \<open>
  \<open>path.dirname\<close> scans from the end down to index 1: trailing separators are
  skipped, then the last segment, and the path is cut at the separator found.
\<close>

definition dirname :: "string \<Rightarrow> string" where
  "dirname p =
     (if p = [] then ''.''
      else
        let hasRoot = (hd p = CHR ''/'');
            r = dropWhile (\<lambda>c. c \<noteq> CHR ''/'') (dropWhile (\<lambda>c. c = CHR ''/'') (rev (tl p)));
            end = length r
        in if r = [] then (if hasRoot then ''/'' else ''.'')
           else if hasRoot \<and> end = 1 then ''//''
           else take end p)"

section \<open>TaskVFS: scopes and path resolution\<close>

record TaskVFS =
  ecosystemPath :: string
  taskId :: string
  runId :: string

text \<open>
  The table \<open>this.scopes\<close> built by the constructor, looked up by key. The table
  is a plain object, so \<open>this.scopes[key]\<close> also finds the members that every
  object inherits from \<open>Object.prototype\<close>; they are no strings, and each is given
  here with the words by which an error message names it.
\<close>

datatype property = Root string | Inherited string

definition object_prototype :: "(string \<times> string) list" where
  "object_prototype =
     [(''constructor'', ''function Object''),
      (''__defineGetter__'', ''function __defineGetter__''),
      (''__defineSetter__'', ''function __defineSetter__''),
      (''hasOwnProperty'', ''function hasOwnProperty''),
      (''__lookupGetter__'', ''function __lookupGetter__''),
      (''__lookupSetter__'', ''function __lookupSetter__''),
      (''isPrototypeOf'', ''function isPrototypeOf''),
      (''propertyIsEnumerable'', ''function propertyIsEnumerable''),
      (''toString'', ''function toString''),
      (''valueOf'', ''function valueOf''),
      (''__proto__'', ''an instance of Object''),
      (''toLocaleString'', ''function toLocaleString'')]"

definition scopes :: "TaskVFS \<Rightarrow> string \<Rightarrow> property option" where
  "scopes vfs key =
     (if key = ''run'' then
        Some (Root (path_join [ecosystemPath vfs, ''tasks'', taskId vfs, ''runs'', runId vfs, ''fs'']))
      else if key = ''task'' then
        Some (Root (path_join [ecosystemPath vfs, ''tasks'', taskId vfs, ''fs'']))
      else if key = ''global'' then
        Some (Root (path_join [ecosystemPath vfs, ''vfs'', ''global'']))
      else map_option Inherited (map_of object_prototype key))"

definition scope_names :: "string list" where
  "scope_names = [''run'', ''task'', ''global'']"

text \<open>
  \<open>_resolvePath(filepath, scope = 'run')\<close>. The checks come in the source's order:
  the scope, then the empty path, then the prefix test on the joined path. A truthy
  value that is not a string has no \<open>trim\<close> method, which raises a \<open>TypeError\<close>;
  so does \<open>path.join\<close> on an inherited member in the place of a scope root.
\<close>

definition resolvePath :: "TaskVFS \<Rightarrow> jsval \<Rightarrow> jsval \<Rightarrow> error + string" where
  "resolvePath vfs filepath scope0 =
     (let scope = default_to (JStr ''run'') scope0
      in case scopes vfs (js_to_string scope) of
           None \<Rightarrow>
             Inl (Error (''Invalid scope: '' @ js_to_string scope @ ''. Valid scopes: ''
                         @ join_with '', '' scope_names))
         | Some entry \<Rightarrow>
             if falsy filepath then Inl (Error ''Filepath cannot be empty'')
             else (case filepath of
                     JStr fp \<Rightarrow>
                       if trim fp = [] then Inl (Error ''Filepath cannot be empty'')
                       else
                         let normalized = (if startsWith fp ''/'' then tl fp else fp)
                         in (case entry of
                               Inherited shown \<Rightarrow>
                                 Inl (TypeError (''The '' @ [CHR 0x22] @ ''path'' @ [CHR 0x22]
                                        @ '' argument must be of type string. Received '' @ shown))
                             | Root root \<Rightarrow>
                                 let resolved = path_join [root, normalized]
                                 in if \<not> startsWith resolved root
                                    then Inl (Error (''Path traversal detected: '' @ fp))
                                    else Inr resolved)
                   | _ \<Rightarrow> Inl (TypeError ''filepath.trim is not a function'')))"

section \<open>The file system under the scope roots\<close>

text \<open>
  The store that Node's \<open>fs\<close> module works on: the working directory and the
  entries, each an absolute location (the list of its segments) with a regular file
  and its bytes, or a directory. The root location \<open>[]\<close> is always a directory.
  Symbolic links, permissions and time stamps are not part of the store. The size
  of a file is the number of its bytes; the size that \<open>stat\<close> reports for a
  directory is the file system's own matter, and the store carries it as
  \<open>dirSize\<close>, one value for all directories.
\<close>

datatype node = File string | Dir

record filesystem =
  cwd :: "string list"
  dirSize :: nat
  entries :: "(string list \<times> node) list"

fun walk :: "string list \<Rightarrow> string list \<Rightarrow> string list" where
  "walk at [] = at"
| "walk at (s # ss) =
     (if s = [] \<or> s = ''.'' then walk at ss
      else if s = ''..'' then walk (butlast at) ss
      else walk (at @ [s]) ss)"

text \<open>The location a path string names: from the root if absolute, else from \<open>cwd\<close>.\<close>

definition locate :: "filesystem \<Rightarrow> string \<Rightarrow> string list" where
  "locate fs p =
     walk (if startsWith p ''/'' then [] else cwd fs) (split_on CHR ''/'' p)"

definition lookup :: "filesystem \<Rightarrow> string list \<Rightarrow> node option" where
  "lookup fs loc = (if loc = [] then Some Dir else map_of (entries fs) loc)"

definition errno :: "string \<Rightarrow> string \<Rightarrow> string \<Rightarrow> error" where
  "errno code syscall p = Error (code @ '', '' @ syscall @ '' '' @ [CHR 0x27] @ p @ [CHR 0x27])"

text \<open>\<open>fs.promises.stat\<close>: a path with a trailing separator must name a directory.\<close>

definition fs_stat :: "filesystem \<Rightarrow> string \<Rightarrow> error + node" where
  "fs_stat fs p =
     (case lookup fs (locate fs p) of
        None \<Rightarrow> Inl (errno ''ENOENT: no such file or directory'' ''stat'' p)
      | Some Dir \<Rightarrow> Inr Dir
      | Some (File c) \<Rightarrow>
          if endsWith p ''/'' then Inl (errno ''ENOTDIR: not a directory'' ''stat'' p)
          else Inr (File c))"

definition existsSync :: "filesystem \<Rightarrow> string \<Rightarrow> bool" where
  "existsSync fs p = (case fs_stat fs p of Inl e \<Rightarrow> False | Inr n \<Rightarrow> True)"

fun is_file :: "node option \<Rightarrow> bool" where
  "is_file (Some (File c)) = True"
| "is_file n = False"

definition ancestors_and_self :: "string list \<Rightarrow> string list list" where
  "ancestors_and_self loc = map (\<lambda>n. take n loc) [1..<Suc (length loc)]"

text \<open>
  \<open>mkdir\<close> with \<open>{recursive: true}\<close>: every missing directory on the way is
  created, an existing directory is left as it is, a regular file on the way or at
  the target is an error.
\<close>

definition mkdir_recursive :: "filesystem \<Rightarrow> string \<Rightarrow> error + filesystem" where
  "mkdir_recursive fs p =
     (let loc = locate fs p
      in if list_ex (\<lambda>a. is_file (lookup fs a)) (butlast (ancestors_and_self loc))
         then Inl (errno ''ENOTDIR: not a directory'' ''mkdir'' p)
         else if is_file (lookup fs loc)
         then Inl (errno ''EEXIST: file already exists'' ''mkdir'' p)
         else Inr (fs\<lparr>entries := fold (\<lambda>a. AList.update a Dir) (ancestors_and_self loc) (entries fs)\<rparr>))"

text \<open>
  \<open>fs.promises.writeFile(path, data, 'utf8')\<close>: \<open>data\<close> must be a string or a
  buffer; the parent must be a directory and the target must not be one. A string
  is written in its UTF-8 encoding, which is its representation here; a buffer is
  written byte for byte. The encoding is the default of \<open>options.encoding\<close>; a
  caller that names another one is not modelled.
\<close>

definition fs_writeFile :: "filesystem \<Rightarrow> string \<Rightarrow> jsval \<Rightarrow> error + filesystem" where
  "fs_writeFile fs p data =
     (case (case data of JStr s \<Rightarrow> Some s | JBuffer b \<Rightarrow> Some b | _ \<Rightarrow> None) of
        None \<Rightarrow>
          Inl (TypeError (''The '' @ [CHR 0x22] @ ''data'' @ [CHR 0x22]
                 @ '' argument must be of type string or an instance of Buffer, TypedArray, or DataView. Received ''
                 @ received data))
      | Some bytes \<Rightarrow>
          let loc = locate fs p
          in if loc = [] \<or> endsWith p ''/''
             then Inl (errno ''EISDIR: illegal operation on a directory'' ''open'' p)
             else (case lookup fs (butlast loc) of
                     None \<Rightarrow> Inl (errno ''ENOENT: no such file or directory'' ''open'' p)
                   | Some (File c) \<Rightarrow> Inl (errno ''ENOTDIR: not a directory'' ''open'' p)
                   | Some Dir \<Rightarrow>
                       (case lookup fs loc of
                          Some Dir \<Rightarrow> Inl (errno ''EISDIR: illegal operation on a directory'' ''open'' p)
                        | _ \<Rightarrow> Inr (fs\<lparr>entries := AList.update loc (File bytes) (entries fs)\<rparr>))))"

text \<open>
  \<open>fs.promises.readFile(path, 'utf8')\<close> returns a string: the bytes of the file,
  decoded.
\<close>

definition fs_readFile :: "filesystem \<Rightarrow> string \<Rightarrow> error + string" where
  "fs_readFile fs p =
     (case fs_stat fs p of
        Inl e \<Rightarrow> Inl (errno ''ENOENT: no such file or directory'' ''open'' p)
      | Inr Dir \<Rightarrow> Inl (Error ''EISDIR: illegal operation on a directory, read'')
      | Inr (File c) \<Rightarrow> Inr (utf8_decode c))"

text \<open>\<open>readdir\<close> with \<open>{withFileTypes: true}\<close>: the names and kinds of the children.\<close>

definition fs_readdir :: "filesystem \<Rightarrow> string \<Rightarrow> error + (string \<times> node) list" where
  "fs_readdir fs p =
     (case fs_stat fs p of
        Inl e \<Rightarrow> Inl (errno ''ENOENT: no such file or directory'' ''scandir'' p)
      | Inr (File c) \<Rightarrow> Inl (errno ''ENOTDIR: not a directory'' ''scandir'' p)
      | Inr Dir \<Rightarrow>
          Inr (map (\<lambda>(k, n). (last k, n))
                 (filter (\<lambda>(k, n). k \<noteq> [] \<and> butlast k = locate fs p) (entries fs))))"

text \<open>\<open>rm\<close> with \<open>{recursive: true, force: true}\<close> removes a whole subtree.\<close>

definition fs_rm_recursive :: "filesystem \<Rightarrow> string \<Rightarrow> filesystem" where
  "fs_rm_recursive fs p =
     fs\<lparr>entries := filter (\<lambda>(k, n). \<not> prefix (locate fs p) k) (entries fs)\<rparr>"

definition fs_unlink :: "filesystem \<Rightarrow> string \<Rightarrow> error + filesystem" where
  "fs_unlink fs p =
     (case fs_stat fs p of
        Inl e \<Rightarrow> Inl (errno ''ENOENT: no such file or directory'' ''unlink'' p)
      | Inr Dir \<Rightarrow> Inl (errno ''EISDIR: illegal operation on a directory'' ''unlink'' p)
      | Inr (File c) \<Rightarrow> Inr (fs\<lparr>entries := AList.delete (locate fs p) (entries fs)\<rparr>))"

section \<open>TaskVFS: file operations\<close>

text \<open>
  Every operation takes the store and returns its result, \<open>Inl\<close> for a thrown
  error, together with the store it leaves where it writes. \<open>options.encoding\<close>
  is absent, so that \<open>writeFile\<close> and \<open>readFile\<close> work with \<open>utf8\<close>. Event
  emission, debug logging, the time stamps in results, and the size and extension
  of a listed entry have no part in what is proved below and are left out.
\<close>

fun node_size :: "filesystem \<Rightarrow> node \<Rightarrow> nat" where
  "node_size fs (File c) = length c"
| "node_size fs Dir = dirSize fs"

record write_result =
  wr_path :: jsval
  wr_scope :: jsval
  wr_size :: nat
  wr_fullPath :: string

definition writeFile ::
  "TaskVFS \<Rightarrow> filesystem \<Rightarrow> jsval \<Rightarrow> jsval \<Rightarrow> jsval \<Rightarrow> bool \<Rightarrow> (error + write_result) \<times> filesystem" where
  "writeFile vfs fs filepath content scope0 appendOpt =
     (let scope = default_to (JStr ''run'') scope0;
          failed = (\<lambda>e. Inl (Error (''Failed to write file '' @ js_to_string filepath @ '': '' @ message e)))
      in case resolvePath vfs filepath scope of
           Inl e \<Rightarrow> (failed e, fs)
         | Inr fullPath \<Rightarrow>
             let dir = dirname fullPath
             in (case (if \<not> existsSync fs dir then mkdir_recursive fs dir else Inr fs) of
                   Inl e \<Rightarrow> (failed e, fs)
                 | Inr fs1 \<Rightarrow>
                     let content1 = (case content of
                                       JObject j \<Rightarrow> JStr j
                                     | JNull \<Rightarrow> JStr ''null''
                                     | c \<Rightarrow> c)
                     in (case (if appendOpt \<and> existsSync fs1 fullPath
                               then (case fs_readFile fs1 fullPath of
                                       Inl e \<Rightarrow> Inl e
                                     | Inr existing \<Rightarrow> Inr (JStr (existing @ js_to_string content1)))
                               else Inr content1) of
                           Inl e \<Rightarrow> (failed e, fs1)
                         | Inr content2 \<Rightarrow>
                             (case fs_writeFile fs1 fullPath content2 of
                                Inl e \<Rightarrow> (failed e, fs1)
                              | Inr fs2 \<Rightarrow>
                                  (case fs_stat fs2 fullPath of
                                     Inl e \<Rightarrow> (failed e, fs2)
                                   | Inr st \<Rightarrow>
                                       (Inr \<lparr>wr_path = filepath, wr_scope = scope,
                                             wr_size = node_size fs2 st, wr_fullPath = fullPath\<rparr>,
                                        fs2))))))"

record read_result =
  rd_content :: string
  rd_path :: jsval
  rd_scope :: jsval
  rd_size :: nat
  rd_fullPath :: string

text \<open>
  The loop of \<open>readFile\<close> over \<open>searchScopes\<close>, with the list \<open>errors\<close> it
  builds. A scope where the path does not exist is passed over (\<open>continue\<close>); an
  error thrown in the body is recorded and, unless the scope is \<open>auto\<close>, rethrown.
\<close>

fun readFile_loop ::
  "TaskVFS \<Rightarrow> filesystem \<Rightarrow> jsval \<Rightarrow> jsval \<Rightarrow> jsval list \<Rightarrow> string list \<Rightarrow> error + read_result" where
  "readFile_loop vfs fs filepath scope [] errors =
     Inl (Error (''File not found: '' @ js_to_string filepath @ ''. Searched: ''
                 @ join_with '', '' errors))"
| "readFile_loop vfs fs filepath scope (s # ss) errors =
     (let caught = (\<lambda>e. if scope \<noteq> JStr ''auto''
                         then Inl (Error (''Failed to read file '' @ js_to_string filepath @ '': '' @ message e))
                         else readFile_loop vfs fs filepath scope ss
                                (errors @ [js_to_string s @ '': '' @ message e]))
      in case resolvePath vfs filepath s of
           Inl e \<Rightarrow> caught e
         | Inr fullPath \<Rightarrow>
             if \<not> existsSync fs fullPath
             then readFile_loop vfs fs filepath scope ss
                    (errors @ [''Not found in '' @ js_to_string s @ '' scope''])
             else (case fs_readFile fs fullPath of
                     Inl e \<Rightarrow> caught e
                   | Inr content \<Rightarrow>
                       (case fs_stat fs fullPath of
                          Inl e \<Rightarrow> caught e
                        | Inr st \<Rightarrow>
                            Inr \<lparr>rd_content = content, rd_path = filepath, rd_scope = s,
                                 rd_size = node_size fs st, rd_fullPath = fullPath\<rparr>)))"


definition readFile :: "TaskVFS \<Rightarrow> filesystem \<Rightarrow> jsval \<Rightarrow> jsval \<Rightarrow> error + read_result" where
  "readFile vfs fs filepath scope0 =
     (let scope = default_to (JStr ''run'') scope0;
          searchScopes = (if scope = JStr ''auto''
                          then [JStr ''run'', JStr ''task'', JStr ''global'']
                          else [scope])
      in readFile_loop vfs fs filepath scope searchScopes [])"

record item =
  it_name :: string
  it_path :: string
  it_scope :: jsval
  it_fullPath :: string

record list_result =
  ls_path :: jsval
  ls_scope :: jsval
  ls_files :: "item list"
  ls_directories :: "item list"
  ls_total :: nat

definition listFiles :: "TaskVFS \<Rightarrow> filesystem \<Rightarrow> jsval \<Rightarrow> jsval \<Rightarrow> error + list_result" where
  "listFiles vfs fs dirpath0 scope0 =
     (let dirpath = default_to (JStr ''/'') dirpath0;
          scope = default_to (JStr ''run'') scope0;
          failed = (\<lambda>e. Inl (Error (''Failed to list files in '' @ js_to_string dirpath @ '': '' @ message e)))
      in case resolvePath vfs dirpath scope of
           Inl e \<Rightarrow> failed e
         | Inr fullPath \<Rightarrow>
             if \<not> existsSync fs fullPath
             then Inr \<lparr>ls_path = dirpath, ls_scope = scope, ls_files = [], ls_directories = [],
                       ls_total = 0\<rparr>
             else (case fs_readdir fs fullPath of
                     Inl e \<Rightarrow> failed e
                   | Inr ents \<Rightarrow>
                       let mk = (\<lambda>name. \<lparr>it_name = name,
                                          it_path = path_join [js_to_string dirpath, name],
                                          it_scope = scope,
                                          it_fullPath = path_join [fullPath, name]\<rparr>);
                           files = map (\<lambda>(name, n). mk name) (filter (\<lambda>(name, n). n \<noteq> Dir) ents);
                           directories = map (\<lambda>(name, n). mk name) (filter (\<lambda>(name, n). n = Dir) ents)
                       in Inr \<lparr>ls_path = dirpath, ls_scope = scope, ls_files = files,
                               ls_directories = directories,
                               ls_total = length files + length directories\<rparr>))"

record path_result =
  pr_path :: jsval
  pr_scope :: jsval

definition deleteFile ::
  "TaskVFS \<Rightarrow> filesystem \<Rightarrow> jsval \<Rightarrow> jsval \<Rightarrow> (error + path_result) \<times> filesystem" where
  "deleteFile vfs fs filepath scope0 =
     (let scope = default_to (JStr ''run'') scope0;
          failed = (\<lambda>e. Inl (Error (''Failed to delete '' @ js_to_string filepath @ '': '' @ message e)))
      in case resolvePath vfs filepath scope of
           Inl e \<Rightarrow> (failed e, fs)
         | Inr fullPath \<Rightarrow>
             if \<not> existsSync fs fullPath
             then (failed (Error (''File not found: '' @ js_to_string filepath)), fs)
             else (case fs_stat fs fullPath of
                     Inl e \<Rightarrow> (failed e, fs)
                   | Inr Dir \<Rightarrow>
                       (Inr \<lparr>pr_path = filepath, pr_scope = scope\<rparr>, fs_rm_recursive fs fullPath)
                   | Inr (File c) \<Rightarrow>
                       (case fs_unlink fs fullPath of
                          Inl e \<Rightarrow> (failed e, fs)
                        | Inr fs' \<Rightarrow> (Inr \<lparr>pr_path = filepath, pr_scope = scope\<rparr>, fs'))))"

text \<open>\<open>exists\<close> catches whatever \<open>_resolvePath\<close> throws and answers \<open>false\<close>.\<close>

definition exists_vfs :: "TaskVFS \<Rightarrow> filesystem \<Rightarrow> jsval \<Rightarrow> jsval \<Rightarrow> bool" where
  "exists_vfs vfs fs filepath scope0 =
     (let scope = default_to (JStr ''run'') scope0
      in case resolvePath vfs filepath scope of
           Inl e \<Rightarrow> False
         | Inr fullPath \<Rightarrow> existsSync fs fullPath)"

record stat_result =
  st_path :: jsval
  st_scope :: jsval
  st_size :: nat
  st_isDirectory :: bool
  st_isFile :: bool
  st_fullPath :: string

definition stat :: "TaskVFS \<Rightarrow> filesystem \<Rightarrow> jsval \<Rightarrow> jsval \<Rightarrow> error + stat_result" where
  "stat vfs fs filepath scope0 =
     (let scope = default_to (JStr ''run'') scope0;
          failed = (\<lambda>e. Inl (Error (''Failed to stat '' @ js_to_string filepath @ '': '' @ message e)))
      in case resolvePath vfs filepath scope of
           Inl e \<Rightarrow> failed e
         | Inr fullPath \<Rightarrow>
             if \<not> existsSync fs fullPath
             then failed (Error (''File not found: '' @ js_to_string filepath))
             else (case fs_stat fs fullPath of
                     Inl e \<Rightarrow> failed e
                   | Inr n \<Rightarrow>
                       Inr \<lparr>st_path = filepath, st_scope = scope, st_size = node_size fs n,
                            st_isDirectory = (n = Dir), st_isFile = (n \<noteq> Dir),
                            st_fullPath = fullPath\<rparr>))"

record mkdir_result =
  mk_path :: jsval
  mk_scope :: jsval
  mk_fullPath :: string

definition mkdir ::
  "TaskVFS \<Rightarrow> filesystem \<Rightarrow> jsval \<Rightarrow> jsval \<Rightarrow> (error + mkdir_result) \<times> filesystem" where
  "mkdir vfs fs dirpath scope0 =
     (let scope = default_to (JStr ''run'') scope0;
          failed = (\<lambda>e. Inl (Error (''Failed to create directory '' @ js_to_string dirpath @ '': '' @ message e)))
      in case resolvePath vfs dirpath scope of
           Inl e \<Rightarrow> (failed e, fs)
         | Inr fullPath \<Rightarrow>
             (case mkdir_recursive fs fullPath of
                Inl e \<Rightarrow> (failed e, fs)
              | Inr fs' \<Rightarrow>
                  (Inr \<lparr>mk_path = dirpath, mk_scope = scope, mk_fullPath = fullPath\<rparr>, fs')))"

text \<open>
  \<open>watch\<close> arms \<open>fs.watch\<close> on the resolved path and returns the handle whose
  \<open>close\<close> releases the watcher. For each change notification of the file system
  the listener builds the event that it passes to the callback.
\<close>

record watch_handle =
  wh_fullPath :: string

record change =
  ch_eventType :: string
  ch_filename :: string

record watch_event =
  we_event :: string
  we_filename :: string
  we_path :: jsval
  we_scope :: jsval

definition watch :: "TaskVFS \<Rightarrow> filesystem \<Rightarrow> jsval \<Rightarrow> jsval \<Rightarrow> error + watch_handle" where
  "watch vfs fs filepath scope0 =
     (let scope = default_to (JStr ''run'') scope0;
          failed = (\<lambda>e. Inl (Error (''Failed to watch '' @ js_to_string filepath @ '': '' @ message e)))
      in case resolvePath vfs filepath scope of
           Inl e \<Rightarrow> failed e
         | Inr fullPath \<Rightarrow>
             if \<not> existsSync fs fullPath
             then failed (Error (''Cannot watch non-existent path: '' @ js_to_string filepath))
             else Inr \<lparr>wh_fullPath = fullPath\<rparr>)"

definition watch_listener :: "jsval \<Rightarrow> jsval \<Rightarrow> change \<Rightarrow> watch_event" where
  "watch_listener filepath scope0 c =
     \<lparr>we_event = ch_eventType c, we_filename = ch_filename c, we_path = filepath,
      we_scope = default_to (JStr ''run'') scope0\<rparr>"

section \<open>HostTools\<close>

text \<open>
  A tool receives one object of parameters, a finite map from keys to values.
  Destructuring reads a missing key as \<open>undefined\<close>. An \<open>async\<close> tool returns a
  promise: \<open>Inr\<close> is the value it resolves to, \<open>Inl\<close> the error it rejects with,
  which the caller's \<open>await\<close> throws. The parameter \<open>encoding\<close> of \<open>writeFile\<close>
  and \<open>readFile\<close> is taken to be absent or \<open>utf8\<close>.
\<close>

type_synonym params = "string \<rightharpoonup> jsval"

definition param :: "params \<Rightarrow> string \<Rightarrow> jsval" where
  "param ps k = (case ps k of None \<Rightarrow> JUndefined | Some v \<Rightarrow> v)"

definition validateParams :: "params \<Rightarrow> string list \<Rightarrow> error + unit" where
  "validateParams ps required =
     (let missing = filter (\<lambda>key. ps key = None) required
      in if length missing > 0
         then Inl (Error (''Missing required parameters: '' @ join_with '', '' missing))
         else Inr ())"

datatype tool_result =
    Failure string string jsval jsval
  | WriteOk write_result
  | ReadOk read_result
  | ListOk list_result
  | DeleteOk path_result
  | ExistsOk bool jsval jsval
  | StatOk stat_result
  | MkdirOk mkdir_result
  | WatchOk watch_event jsval jsval

text \<open>
  \<open>Failure error tool path scope\<close> is the object
  \<open>{success: false, error, tool, params: {path, scope}}\<close>;
  \<open>ExistsOk exists path scope\<close> is \<open>{success: true, exists, path, scope}\<close>;
  \<open>WatchOk event path scope\<close> is \<open>{success: true, event, path, scope}\<close>. The
  other constructors carry what the TaskVFS method returned.
\<close>

definition tool_writeFile ::
  "TaskVFS \<Rightarrow> filesystem \<Rightarrow> params \<Rightarrow> (error + tool_result) \<times> filesystem" where
  "tool_writeFile vfs fs ps =
     (case validateParams ps [''path'', ''content''] of
        Inl e \<Rightarrow> (Inl e, fs)
      | Inr u \<Rightarrow>
          let path = param ps ''path'';
              content = param ps ''content'';
              scope = default_to (JStr ''run'') (param ps ''scope'');
              appendOpt = default_to (JBool False) (param ps ''append'')
          in (case writeFile vfs fs path content scope (\<not> falsy appendOpt) of
                (Inl e, fs') \<Rightarrow> (Inr (Failure (message e) ''writeFile'' path scope), fs')
              | (Inr r, fs') \<Rightarrow> (Inr (WriteOk r), fs')))"

definition tool_readFile :: "TaskVFS \<Rightarrow> filesystem \<Rightarrow> params \<Rightarrow> error + tool_result" where
  "tool_readFile vfs fs ps =
     (case validateParams ps [''path''] of
        Inl e \<Rightarrow> Inl e
      | Inr u \<Rightarrow>
          let path = param ps ''path'';
              scope = default_to (JStr ''auto'') (param ps ''scope'')
          in (case readFile vfs fs path scope of
                Inl e \<Rightarrow> Inr (Failure (message e) ''readFile'' path scope)
              | Inr r \<Rightarrow> Inr (ReadOk r)))"

definition tool_deleteFile ::
  "TaskVFS \<Rightarrow> filesystem \<Rightarrow> params \<Rightarrow> (error + tool_result) \<times> filesystem" where
  "tool_deleteFile vfs fs ps =
     (case validateParams ps [''path''] of
        Inl e \<Rightarrow> (Inl e, fs)
      | Inr u \<Rightarrow>
          let path = param ps ''path'';
              scope = default_to (JStr ''run'') (param ps ''scope'')
          in (case deleteFile vfs fs path scope of
                (Inl e, fs') \<Rightarrow> (Inr (Failure (message e) ''deleteFile'' path scope), fs')
              | (Inr r, fs') \<Rightarrow> (Inr (DeleteOk r), fs')))"

definition tool_fileExists :: "TaskVFS \<Rightarrow> filesystem \<Rightarrow> params \<Rightarrow> error + tool_result" where
  "tool_fileExists vfs fs ps =
     (case validateParams ps [''path''] of
        Inl e \<Rightarrow> Inl e
      | Inr u \<Rightarrow>
          let path = param ps ''path'';
              scope = default_to (JStr ''run'') (param ps ''scope'')
          in Inr (ExistsOk (exists_vfs vfs fs path scope) path scope))"

definition tool_fileStat :: "TaskVFS \<Rightarrow> filesystem \<Rightarrow> params \<Rightarrow> error + tool_result" where
  "tool_fileStat vfs fs ps =
     (case validateParams ps [''path''] of
        Inl e \<Rightarrow> Inl e
      | Inr u \<Rightarrow>
          let path = param ps ''path'';
              scope = default_to (JStr ''run'') (param ps ''scope'')
          in (case stat vfs fs path scope of
                Inl e \<Rightarrow> Inr (Failure (message e) ''fileStat'' path scope)
              | Inr r \<Rightarrow> Inr (StatOk r)))"

definition tool_mkdir ::
  "TaskVFS \<Rightarrow> filesystem \<Rightarrow> params \<Rightarrow> (error + tool_result) \<times> filesystem" where
  "tool_mkdir vfs fs ps =
     (case validateParams ps [''path''] of
        Inl e \<Rightarrow> (Inl e, fs)
      | Inr u \<Rightarrow>
          let path = param ps ''path'';
              scope = default_to (JStr ''run'') (param ps ''scope'')
          in (case mkdir vfs fs path scope of
                (Inl e, fs') \<Rightarrow> (Inr (Failure (message e) ''mkdir'' path scope), fs')
              | (Inr r, fs') \<Rightarrow> (Inr (MkdirOk r), fs')))"

text \<open>
  \<open>listFiles\<close> with \<open>recursive\<close>. The \<open>for ... of\<close> loop runs over
  \<open>result.directories\<close> while the body appends to that same array, so the loop is
  modelled by its index into the current array. The tool calls itself; the first
  argument bounds the number of calls and loop steps, and \<open>None\<close> means that the
  bound was too small.
\<close>

fun tool_listFiles :: "nat \<Rightarrow> TaskVFS \<Rightarrow> filesystem \<Rightarrow> params \<Rightarrow> tool_result option"
  and listFiles_loop ::
    "nat \<Rightarrow> TaskVFS \<Rightarrow> filesystem \<Rightarrow> jsval \<Rightarrow> nat \<Rightarrow> list_result \<Rightarrow> list_result option" where
  "tool_listFiles 0 vfs fs ps = None"
| "tool_listFiles (Suc n) vfs fs ps =
     (let path = default_to (JStr ''/'') (param ps ''path'');
          scope = default_to (JStr ''run'') (param ps ''scope'');
          recursive = default_to (JBool False) (param ps ''recursive'')
      in case listFiles vfs fs path scope of
           Inl e \<Rightarrow> Some (Failure (message e) ''listFiles'' path scope)
         | Inr result \<Rightarrow>
             if \<not> falsy recursive \<and> length (ls_directories result) > 0
             then map_option ListOk (listFiles_loop n vfs fs scope 0 result)
             else Some (ListOk result))"
| "listFiles_loop 0 vfs fs scope i result = None"
| "listFiles_loop (Suc n) vfs fs scope i result =
     (if i < length (ls_directories result) then
        (case tool_listFiles n vfs fs
                [''path'' \<mapsto> JStr (it_path (ls_directories result ! i)),
                 ''scope'' \<mapsto> scope,
                 ''recursive'' \<mapsto> JBool True] of
           None \<Rightarrow> None
         | Some (ListOk subResult) \<Rightarrow>
             listFiles_loop n vfs fs scope (Suc i)
               (result\<lparr>ls_files := ls_files result @ ls_files subResult,
                       ls_directories := ls_directories result @ ls_directories subResult\<rparr>)
         | Some other \<Rightarrow> listFiles_loop n vfs fs scope (Suc i) result)
      else Some result)"

text \<open>
  What listing the subdirectory \<open>d\<close> contributes to \<open>files\<close>: the files of its
  listing, and nothing when the listing fails.
\<close>

definition subdirectory_files :: "TaskVFS \<Rightarrow> filesystem \<Rightarrow> jsval \<Rightarrow> item \<Rightarrow> item list" where
  "subdirectory_files vfs fs scope d =
     (case listFiles vfs fs (JStr (it_path d)) scope of
        Inl e \<Rightarrow> []
      | Inr sub \<Rightarrow> ls_files sub)"

text \<open>A directory is flat when listing it finds no directory in it.\<close>

definition flat :: "TaskVFS \<Rightarrow> filesystem \<Rightarrow> jsval \<Rightarrow> item \<Rightarrow> bool" where
  "flat vfs fs scope d =
     (case listFiles vfs fs (JStr (it_path d)) scope of
        Inl e \<Rightarrow> True
      | Inr sub \<Rightarrow> ls_directories sub = [])"

text \<open>
  \<open>watchFile\<close> awaits a promise that the callback of \<open>watch\<close> resolves. A promise
  settles once: \<open>resolve\<close> on a settled promise does nothing. \<open>changes\<close> are the
  notifications that the armed watcher delivers, in order. An error thrown by
  \<open>watch\<close> inside the executor rejects the promise, and the \<open>catch\<close> of the tool
  turns it into the failure object. The second component lists the watchers that
  the call leaves open: the handle that \<open>watch\<close> returns is dropped by the
  executor, so nothing closes it.
\<close>

datatype 'a promise = Pending | Fulfilled 'a | Rejected error

definition settle :: "'a promise \<Rightarrow> 'a \<Rightarrow> 'a promise" where
  "settle p v = (case p of Pending \<Rightarrow> Fulfilled v | settled \<Rightarrow> settled)"

definition tool_watchFile ::
  "TaskVFS \<Rightarrow> filesystem \<Rightarrow> params \<Rightarrow> change list \<Rightarrow> tool_result promise \<times> watch_handle list" where
  "tool_watchFile vfs fs ps changes =
     (case validateParams ps [''path''] of
        Inl e \<Rightarrow> (Rejected e, [])
      | Inr u \<Rightarrow>
          let path = param ps ''path'';
              scope = default_to (JStr ''run'') (param ps ''scope'')
          in (case watch vfs fs path scope of
                Inl e \<Rightarrow> (Fulfilled (Failure (message e) ''watchFile'' path scope), [])
              | Inr handle \<Rightarrow>
                  (foldl (\<lambda>p c. settle p (WatchOk (watch_listener path scope c) path scope))
                         Pending changes,
                   [handle])))"

section \<open>Construction\<close>

text \<open>
  The constructor of \<open>TaskVFS\<close> calls \<open>_ensureDirectories\<close>: each scope root that
  does not exist is created with its ancestors. An error of \<open>mkdirSync\<close> leaves
  the constructor.
\<close>

definition ensureDirectories :: "TaskVFS \<Rightarrow> filesystem \<Rightarrow> error + filesystem" where
  "ensureDirectories vfs fs =
     fold (\<lambda>key r. case r of
                      Inl e \<Rightarrow> Inl e
                    | Inr fs' \<Rightarrow>
                        (case scopes vfs key of
                           Some (Root dir) \<Rightarrow>
                             if \<not> existsSync fs' dir then mkdir_recursive fs' dir else Inr fs'
                         | other \<Rightarrow> Inr fs'))
          scope_names (Inr fs)"

section \<open>Sample installations\<close>

definition sample_vfs :: TaskVFS where
  "sample_vfs = \<lparr>ecosystemPath = ''/eco'', taskId = ''t1'', runId = ''r1''\<rparr>"

text \<open>The store right after the constructor has created the three scope roots.\<close>

definition sample_roots :: "(string list \<times> node) list" where
  "sample_roots =
     [([''eco''], Dir),
      ([''eco'', ''tasks''], Dir),
      ([''eco'', ''tasks'', ''t1''], Dir),
      ([''eco'', ''tasks'', ''t1'', ''runs''], Dir),
      ([''eco'', ''tasks'', ''t1'', ''runs'', ''r1''], Dir),
      ([''eco'', ''tasks'', ''t1'', ''runs'', ''r1'', ''fs''], Dir),
      ([''eco'', ''tasks'', ''t1'', ''fs''], Dir),
      ([''eco'', ''vfs''], Dir),
      ([''eco'', ''vfs'', ''global''], Dir)]"

definition fresh_fs :: filesystem where
  "fresh_fs = \<lparr>cwd = [], dirSize = 4096, entries = sample_roots\<rparr>"

text \<open>The run scope holds one subdirectory \<open>sub\<close> with one file \<open>f.txt\<close>.\<close>

definition nested_fs :: filesystem where
  "nested_fs =
     \<lparr>cwd = [], dirSize = 4096,
      entries = sample_roots @
        [([''eco'', ''tasks'', ''t1'', ''runs'', ''r1'', ''fs'', ''sub''], Dir),
         ([''eco'', ''tasks'', ''t1'', ''runs'', ''r1'', ''fs'', ''sub'', ''f.txt''], File ''data'')]\<rparr>"

text \<open>The entry that a listing in the run scope gives for a logical path.\<close>

definition run_item :: "string \<Rightarrow> string \<Rightarrow> item" where
  "run_item name logical =
     \<lparr>it_name = name, it_path = logical, it_scope = JStr ''run'',
      it_fullPath = ''/eco/tasks/t1/runs/r1/fs'' @ logical\<rparr>"

text \<open>
  The run scope holds the file \<open>top.txt\<close> and two directories: \<open>x\<close> with one
  file, \<open>y\<close> with two.
\<close>

definition twin_fs :: filesystem where
  "twin_fs =
     \<lparr>cwd = [], dirSize = 4096,
      entries = sample_roots @
        [([''eco'', ''tasks'', ''t1'', ''runs'', ''r1'', ''fs'', ''top.txt''], File ''t''),
         ([''eco'', ''tasks'', ''t1'', ''runs'', ''r1'', ''fs'', ''x''], Dir),
         ([''eco'', ''tasks'', ''t1'', ''runs'', ''r1'', ''fs'', ''x'', ''x1.txt''], File ''1''),
         ([''eco'', ''tasks'', ''t1'', ''runs'', ''r1'', ''fs'', ''y''], Dir),
         ([''eco'', ''tasks'', ''t1'', ''runs'', ''r1'', ''fs'', ''y'', ''y1.txt''], File ''2''),
         ([''eco'', ''tasks'', ''t1'', ''runs'', ''r1'', ''fs'', ''y'', ''y2.txt''], File ''3'')]\<rparr>"

text \<open>The run scope holds \<open>a\<close>, in it \<open>b\<close>, in it the file \<open>f.txt\<close>.\<close>

definition deep_fs :: filesystem where
  "deep_fs =
     \<lparr>cwd = [], dirSize = 4096,
      entries = sample_roots @
        [([''eco'', ''tasks'', ''t1'', ''runs'', ''r1'', ''fs'', ''a''], Dir),
         ([''eco'', ''tasks'', ''t1'', ''runs'', ''r1'', ''fs'', ''a'', ''b''], Dir),
         ([''eco'', ''tasks'', ''t1'', ''runs'', ''r1'', ''fs'', ''a'', ''b'', ''f.txt''], File ''data'')]\<rparr>"

text \<open>
  The logical path \<open>a.txt\<close> is a file in the run scope and in the global scope,
  \<open>notes/a.txt\<close> is a file in the task scope only, \<open>g.txt\<close> in the global scope
  only.
\<close>

definition shadowed_fs :: filesystem where
  "shadowed_fs =
     \<lparr>cwd = [], dirSize = 4096,
      entries = sample_roots @
        [([''eco'', ''tasks'', ''t1'', ''runs'', ''r1'', ''fs'', ''a.txt''], File ''from run''),
         ([''eco'', ''vfs'', ''global'', ''a.txt''], File ''from global''),
         ([''eco'', ''tasks'', ''t1'', ''fs'', ''notes''], Dir),
         ([''eco'', ''tasks'', ''t1'', ''fs'', ''notes'', ''a.txt''], File ''hello''),
         ([''eco'', ''vfs'', ''global'', ''g.txt''], File ''shared'')]\<rparr>"

section \<open>The sample store is a constructed one\<close>

lemma fresh_fs_constructed:
  "ensureDirectories sample_vfs \<lparr>cwd = [], dirSize = 4096, entries = []\<rparr> = Inr fresh_fs"
  by code_simp

section \<open>Path containment\<close>

lemma strip_leading_Nil: "strip_leading ws [] = []"
proof -
  have "find (\<lambda>w. w \<noteq> [] \<and> prefix w []) ws = None" by (simp add: find_None_iff)
  then show ?thesis by (simp add: strip_leading.simps)
qed

lemma trim_Nil: "trim [] = []"
  by (simp add: trim_def strip_leading_Nil)

lemma trim_nonempty: "trim fp \<noteq> [] \<Longrightarrow> fp \<noteq> []"
  using trim_Nil by auto

lemma ascii_well_formed: "\<forall>b \<in> set s. (of_char b :: nat) < 0x80 \<Longrightarrow> well_formed s"
  unfolding well_formed_def by (induction s) (simp_all add: utf8_decode.simps(2))

text \<open>
  The no-break space U+00A0 is the two bytes \<open>C2 A0\<close>, which \<open>trim\<close> removes; the
  byte \<open>A0\<close> alone is no string.
\<close>

lemma no_break_space:
  "well_formed [CHR 0xC2, CHR 0xA0] \<and> trim [CHR 0xC2, CHR 0xA0] = [] \<and> \<not> well_formed [CHR 0xA0]"
  by code_simp

text \<open>
  Claim C1, as amended. For a recognised scope and a path that is not blank, take
  the normalised join of the scope root and the path without its leading separator.
  When the join is the root or lies below it, resolution returns the join, also for
  a path that contains \<open>../\<close> or starts with a separator. When the join does not
  start with the root, resolution fails with \<open>Path traversal detected\<close>. Whatever
  the path and the scope, a path that resolution returns starts with the root of
  its scope.
\<close>

theorem resolvePath_containment:
  "(scopes vfs s = Some (Root root) \<and> trim fp \<noteq> [] \<longrightarrow>
      (let resolved = path_join [root, if startsWith fp ''/'' then tl fp else fp]
       in (resolved = root \<or> startsWith resolved (root @ ''/'') \<longrightarrow>
             resolvePath vfs (JStr fp) (JStr s) = Inr resolved)
        \<and> (\<not> startsWith resolved root \<longrightarrow>
             resolvePath vfs (JStr fp) (JStr s) = Inl (Error (''Path traversal detected: '' @ fp)))))
   \<and> (resolvePath vfs filepath scope = Inr resolved \<longrightarrow>
        (\<exists>root. scopes vfs (js_to_string (default_to (JStr ''run'') scope)) = Some (Root root)
                \<and> startsWith resolved root))"
proof (intro conjI impI)
  assume h: "scopes vfs s = Some (Root root) \<and> trim fp \<noteq> []"
  then have ne: "fp \<noteq> []" by (simp add: trim_nonempty)
  have below: "startsWith r root" if "r = root \<or> startsWith r (root @ ''/'')" for r
    using that by (auto simp: startsWith_def dest: append_prefixD)
  show "let resolved = path_join [root, if startsWith fp ''/'' then tl fp else fp]
       in (resolved = root \<or> startsWith resolved (root @ ''/'') \<longrightarrow>
             resolvePath vfs (JStr fp) (JStr s) = Inr resolved)
        \<and> (\<not> startsWith resolved root \<longrightarrow>
             resolvePath vfs (JStr fp) (JStr s) = Inl (Error (''Path traversal detected: '' @ fp)))"
    using h ne below by (simp add: resolvePath_def default_to_def Let_def)
next
  assume "resolvePath vfs filepath scope = Inr resolved"
  then show "\<exists>root. scopes vfs (js_to_string (default_to (JStr ''run'') scope)) = Some (Root root)
                \<and> startsWith resolved root"
    by (auto simp: resolvePath_def Let_def split: option.splits if_splits jsval.splits property.splits)
qed

text \<open>
  In the global scope \<open>../x\<close> leaves the root and is rejected; in the default scope
  \<open>notes/a.txt\<close> resolves below the run root.
\<close>

theorem resolvePath_containment_witness:
  "scopes sample_vfs ''global'' = Some (Root ''/eco/vfs/global'') \<and> trim ''../x'' \<noteq> []
   \<and> \<not> startsWith (path_join [''/eco/vfs/global'', ''../x'']) ''/eco/vfs/global''
   \<and> resolvePath sample_vfs (JStr ''../x'') (JStr ''global'') = Inl (Error ''Path traversal detected: ../x'')
   \<and> scopes sample_vfs ''run'' = Some (Root ''/eco/tasks/t1/runs/r1/fs'') \<and> trim ''notes/a.txt'' \<noteq> []
   \<and> startsWith (path_join [''/eco/tasks/t1/runs/r1/fs'', ''notes/a.txt'']) (''/eco/tasks/t1/runs/r1/fs'' @ ''/'')
   \<and> resolvePath sample_vfs (JStr ''notes/a.txt'') (JStr ''run'') = Inr ''/eco/tasks/t1/runs/r1/fs/notes/a.txt''
   \<and> startsWith ''/eco/tasks/t1/runs/r1/fs/notes/a.txt'' ''/eco/tasks/t1/runs/r1/fs''"
proof -
  have s: "scopes sample_vfs ''global'' = Some (Root ''/eco/vfs/global'')" by code_simp
  have t: "trim ''../x'' \<noteq> []" by code_simp
  have j: "path_join [''/eco/vfs/global'', ''../x''] = ''/eco/vfs/x''" by code_simp
  have n: "\<not> startsWith ''/eco/vfs/x'' ''/eco/vfs/global''" by code_simp
  have s': "scopes sample_vfs ''run'' = Some (Root ''/eco/tasks/t1/runs/r1/fs'')" by code_simp
  have t': "trim ''notes/a.txt'' \<noteq> []" by code_simp
  have j': "path_join [''/eco/tasks/t1/runs/r1/fs'', ''notes/a.txt''] = ''/eco/tasks/t1/runs/r1/fs/notes/a.txt''"
    by code_simp
  have n': "startsWith ''/eco/tasks/t1/runs/r1/fs/notes/a.txt'' (''/eco/tasks/t1/runs/r1/fs'' @ ''/'')"
    by code_simp
  have p: "startsWith ''/eco/tasks/t1/runs/r1/fs/notes/a.txt'' ''/eco/tasks/t1/runs/r1/fs''"
    by code_simp
  have A: "resolvePath sample_vfs (JStr ''../x'') (JStr ''global'') = Inl (Error ''Path traversal detected: ../x'')"
    using resolvePath_containment [where vfs = sample_vfs and s = "''global''"
            and root = "''/eco/vfs/global''" and fp = "''../x''"] s t j n
    by (simp add: Let_def startsWith_def)
  have B: "resolvePath sample_vfs (JStr ''notes/a.txt'') (JStr ''run'') = Inr ''/eco/tasks/t1/runs/r1/fs/notes/a.txt''"
    using resolvePath_containment [where vfs = sample_vfs and s = "''run''"
            and root = "''/eco/tasks/t1/runs/r1/fs''" and fp = "''notes/a.txt''"] s' t' j' n'
    by (simp add: Let_def startsWith_def)
  show ?thesis using s t j n s' t' j' n' p A B by simp
qed

text \<open>
  Claim C1 as stated fails: \<open>a/../b\<close> contains \<open>../\<close> and \<open>/etc/passwd\<close> is an
  absolute path, and both resolve, to a path under the scope root.
\<close>

theorem resolvePath_dotdot_counterexample:
  "resolvePath sample_vfs (JStr ''a/../b'') (JStr ''run'') = Inr ''/eco/tasks/t1/runs/r1/fs/b''
   \<and> resolvePath sample_vfs (JStr ''/etc/passwd'') (JStr ''global'') = Inr ''/eco/vfs/global/etc/passwd''"
  by code_simp

text \<open>
  Between the two cases of the theorem lies a join that starts with the characters
  of the root and yet is not below it: a sibling directory whose name continues the
  name of the root. The prefix test compares strings and lets it through.
\<close>

lemma resolvePath_sibling_of_root:
  "resolvePath sample_vfs (JStr ''../global2/x'') (JStr ''global'') = Inr ''/eco/vfs/global2/x''"
  by code_simp

section \<open>Parameter validation\<close>

lemma resolvePath_default [simp]:
  "resolvePath vfs fp (default_to (JStr ''run'') sc) = resolvePath vfs fp sc"
  by (simp add: resolvePath_def default_to_def)

lemma validateParams_missing:
  "filter (\<lambda>key. ps key = None) required \<noteq> [] \<Longrightarrow>
   validateParams ps required =
     Inl (Error (''Missing required parameters: ''
                 @ join_with '', '' (filter (\<lambda>key. ps key = None) required)))"
  by (simp add: validateParams_def Let_def)

text \<open>
  Claim C3, as amended. A tool call that lacks required parameters fails with an
  error whose message is \<open>Missing required parameters:\<close> followed by every absent
  key, in the order of the tool's list and separated by commas. The error is thrown:
  the promise of the tool rejects with it, and no failure object is returned. The
  store is left as it was.
\<close>

theorem missing_parameters_rejected:
  "(filter (\<lambda>key. ps key = None) required \<noteq> [] \<longrightarrow>
      validateParams ps required =
        Inl (Error (''Missing required parameters: ''
                    @ join_with '', '' (filter (\<lambda>key. ps key = None) required))))
   \<and> (filter (\<lambda>key. ps key = None) [''path'', ''content''] \<noteq> [] \<longrightarrow>
        tool_writeFile vfs fs ps =
          (Inl (Error (''Missing required parameters: ''
                       @ join_with '', '' (filter (\<lambda>key. ps key = None) [''path'', ''content'']))), fs))
   \<and> (ps ''path'' = None \<longrightarrow>
        tool_readFile vfs fs ps = Inl (Error ''Missing required parameters: path'')
        \<and> tool_deleteFile vfs fs ps = (Inl (Error ''Missing required parameters: path''), fs)
        \<and> tool_fileExists vfs fs ps = Inl (Error ''Missing required parameters: path'')
        \<and> tool_fileStat vfs fs ps = Inl (Error ''Missing required parameters: path'')
        \<and> tool_mkdir vfs fs ps = (Inl (Error ''Missing required parameters: path''), fs)
        \<and> tool_watchFile vfs fs ps changes = (Rejected (Error ''Missing required parameters: path''), []))"
proof (intro conjI impI)
  assume "filter (\<lambda>key. ps key = None) required \<noteq> []"
  then show "validateParams ps required =
        Inl (Error (''Missing required parameters: ''
                    @ join_with '', '' (filter (\<lambda>key. ps key = None) required)))"
    by (rule validateParams_missing)
next
  assume "filter (\<lambda>key. ps key = None) [''path'', ''content''] \<noteq> []"
  then have w: "validateParams ps [''path'', ''content''] =
      Inl (Error (''Missing required parameters: ''
                       @ join_with '', '' (filter (\<lambda>key. ps key = None) [''path'', ''content''])))"
    by (rule validateParams_missing)
  show "tool_writeFile vfs fs ps =
          (Inl (Error (''Missing required parameters: ''
                       @ join_with '', '' (filter (\<lambda>key. ps key = None) [''path'', ''content'']))), fs)"
    unfolding tool_writeFile_def w by simp
next
  assume p: "ps ''path'' = None"
  then have v: "validateParams ps [''path''] = Inl (Error ''Missing required parameters: path'')"
    by (simp add: validateParams_def)
  show "tool_readFile vfs fs ps = Inl (Error ''Missing required parameters: path'')"
    by (simp add: tool_readFile_def v)
  show "tool_deleteFile vfs fs ps = (Inl (Error ''Missing required parameters: path''), fs)"
    by (simp add: tool_deleteFile_def v)
  show "tool_fileExists vfs fs ps = Inl (Error ''Missing required parameters: path'')"
    by (simp add: tool_fileExists_def v)
  show "tool_fileStat vfs fs ps = Inl (Error ''Missing required parameters: path'')"
    by (simp add: tool_fileStat_def v)
  show "tool_mkdir vfs fs ps = (Inl (Error ''Missing required parameters: path''), fs)"
    by (simp add: tool_mkdir_def v)
  show "tool_watchFile vfs fs ps changes = (Rejected (Error ''Missing required parameters: path''), [])"
    by (simp add: tool_watchFile_def v)
qed

text \<open>A call with no parameters at all: \<open>writeFile\<close> names both keys.\<close>

theorem missing_parameters_rejected_witness:
  "filter (\<lambda>key. Map.empty key = (None :: jsval option)) [''path'', ''content''] \<noteq> []
   \<and> validateParams Map.empty [''path'', ''content''] = Inl (Error ''Missing required parameters: path, content'')
   \<and> tool_writeFile sample_vfs fresh_fs Map.empty = (Inl (Error ''Missing required parameters: path, content''), fresh_fs)
   \<and> tool_mkdir sample_vfs fresh_fs Map.empty = (Inl (Error ''Missing required parameters: path''), fresh_fs)"
  using missing_parameters_rejected [of Map.empty "[''path'', ''content'']" sample_vfs fresh_fs]
  by simp

text \<open>
  Claim C3 as stated fails: \<open>writeFile({content: "x"})\<close> does not return an object
  with \<open>success: false\<close>; the call rejects with the error itself.
\<close>

theorem writeFile_without_path_counterexample:
  "tool_writeFile sample_vfs fresh_fs [''content'' \<mapsto> JStr ''x'']
     = (Inl (Error ''Missing required parameters: path''), fresh_fs)"
  by (simp add: tool_writeFile_def validateParams_def)

section \<open>Existence checks\<close>

text \<open>
  Claim C5, as amended. \<open>exists\<close> answers with a boolean for every path and scope:
  true exactly when the path resolves and the resolved path exists, so every
  resolution error counts as absence. The \<open>fileExists\<close> tool, on every call that
  supplies the key \<open>path\<close>, returns \<open>{success: true, exists, path, scope}\<close>.
\<close>

theorem exists_never_throws:
  "exists_vfs vfs fs filepath scope = (\<exists>fullPath. resolvePath vfs filepath scope = Inr fullPath \<and> existsSync fs fullPath)
   \<and> (resolvePath vfs filepath scope = Inl e \<longrightarrow> exists_vfs vfs fs filepath scope = False)
   \<and> (ps ''path'' = Some v \<longrightarrow>
        tool_fileExists vfs fs ps =
          Inr (ExistsOk (exists_vfs vfs fs v (param ps ''scope'')) v
                        (default_to (JStr ''run'') (param ps ''scope''))))"
  by (auto simp: exists_vfs_def tool_fileExists_def validateParams_def param_def Let_def
           split: sum.splits)

text \<open>An unknown scope: resolution fails, and the answer is \<open>false\<close>.\<close>

theorem exists_never_throws_witness:
  "resolvePath sample_vfs (JStr ''../../x'') (JStr ''bogus'') = Inl (Error ''Invalid scope: bogus. Valid scopes: run, task, global'')
   \<and> exists_vfs sample_vfs fresh_fs (JStr ''../../x'') (JStr ''bogus'') = False
   \<and> tool_fileExists sample_vfs fresh_fs [''path'' \<mapsto> JStr ''../../x'', ''scope'' \<mapsto> JStr ''bogus'']
       = Inr (ExistsOk False (JStr ''../../x'') (JStr ''bogus''))"
proof -
  have r: "resolvePath sample_vfs (JStr ''../../x'') (JStr ''bogus'') = Inl (Error ''Invalid scope: bogus. Valid scopes: run, task, global'')"
    by code_simp
  from exists_never_throws [of sample_vfs fresh_fs "JStr ''../../x''" "JStr ''bogus''"
        "Error ''Invalid scope: bogus. Valid scopes: run, task, global''"
        "[''path'' \<mapsto> JStr ''../../x'', ''scope'' \<mapsto> JStr ''bogus'']" "JStr ''../../x''"] r
  show ?thesis by (simp add: param_def default_to_def)
qed

text \<open>
  Claim C5 as stated fails: \<open>fileExists({})\<close> is a call of the tool that fails, with
  the error of the parameter validation.
\<close>

theorem fileExists_without_path_counterexample:
  "tool_fileExists sample_vfs fresh_fs Map.empty = Inl (Error ''Missing required parameters: path'')"
  by (simp add: tool_fileExists_def validateParams_def)

section \<open>Blank paths\<close>

lemma resolvePath_blank:
  assumes "trim fp = []"
    and "scopes vfs (js_to_string (default_to (JStr ''run'') sc)) = Some entry"
  shows "resolvePath vfs (JStr fp) sc = Inl (Error ''Filepath cannot be empty'')"
  using assms by (simp add: resolvePath_def Let_def)

lemma scopes_known:
  "scopes vfs ''run'' \<noteq> None" "scopes vfs ''task'' \<noteq> None" "scopes vfs ''global'' \<noteq> None"
  by (simp_all add: scopes_def)

lemma readFile_auto_blank:
  assumes "trim fp = []"
  shows "readFile vfs fs (JStr fp) (JStr ''auto'') =
     Inl (Error (''File not found: '' @ fp @ ''. Searched: run: Filepath cannot be empty, task: Filepath cannot be empty, global: Filepath cannot be empty''))"
proof -
  have r: "resolvePath vfs (JStr fp) (JStr s) = Inl (Error ''Filepath cannot be empty'')"
    if "s \<in> {''run'', ''task'', ''global''}" for s
    using that assms by (auto simp: resolvePath_def Let_def default_to_def scopes_def)
  show ?thesis
    by (simp add: readFile_def default_to_def r)
qed

lemma readFile_concrete_blank:
  assumes "trim fp = []" and "sc \<noteq> JUndefined" and "sc \<noteq> JStr ''auto''"
    and "scopes vfs (js_to_string sc) = Some entry"
  shows "readFile vfs fs (JStr fp) sc =
     Inl (Error (''Failed to read file '' @ fp @ '': Filepath cannot be empty''))"
proof -
  have "resolvePath vfs (JStr fp) sc = Inl (Error ''Filepath cannot be empty'')"
    using assms by (simp add: resolvePath_blank default_to_def)
  then show ?thesis using assms by (simp add: readFile_def default_to_def)
qed

text \<open>
  Claim C10, as amended. A call that supplies \<open>path\<close> as the empty string or as
  white space passes the parameter validation, which tests the presence of keys only.
  With a scope that passes the scope check, \<open>writeFile\<close> (given \<open>content\<close>), \<open>deleteFile\<close>,
  \<open>fileStat\<close>, \<open>mkdir\<close> and \<open>watchFile\<close> return the failure object whose error
  ends in \<open>Filepath cannot be empty\<close>; \<open>readFile\<close> returns it too, with the reason
  once per probed scope under \<open>auto\<close>. \<open>fileExists\<close> does not fail: it returns
  \<open>{success: true, exists: false, path, scope}\<close>.
\<close>

theorem blank_path_passes_validation:
  "(ps ''path'' = Some (JStr fp) \<and> trim fp = []
      \<and> scopes vfs (js_to_string (default_to (JStr ''run'') (param ps ''scope''))) = Some entry \<longrightarrow>
        validateParams ps [''path''] = Inr ()
      \<and> (ps ''content'' \<noteq> None \<longrightarrow>
           tool_writeFile vfs fs ps =
             (Inr (Failure (''Failed to write file '' @ fp @ '': Filepath cannot be empty'') ''writeFile''
                     (JStr fp) (default_to (JStr ''run'') (param ps ''scope''))), fs))
      \<and> tool_deleteFile vfs fs ps =
             (Inr (Failure (''Failed to delete '' @ fp @ '': Filepath cannot be empty'') ''deleteFile''
                     (JStr fp) (default_to (JStr ''run'') (param ps ''scope''))), fs)
      \<and> tool_fileStat vfs fs ps =
             Inr (Failure (''Failed to stat '' @ fp @ '': Filepath cannot be empty'') ''fileStat''
                     (JStr fp) (default_to (JStr ''run'') (param ps ''scope'')))
      \<and> tool_mkdir vfs fs ps =
             (Inr (Failure (''Failed to create directory '' @ fp @ '': Filepath cannot be empty'') ''mkdir''
                     (JStr fp) (default_to (JStr ''run'') (param ps ''scope''))), fs)
      \<and> tool_watchFile vfs fs ps changes =
             (Fulfilled (Failure (''Failed to watch '' @ fp @ '': Filepath cannot be empty'') ''watchFile''
                     (JStr fp) (default_to (JStr ''run'') (param ps ''scope''))), []))
   \<and> (ps ''path'' = Some (JStr fp) \<and> trim fp = []
        \<and> (param ps ''scope'' = JUndefined \<or> param ps ''scope'' = JStr ''auto'') \<longrightarrow>
        tool_readFile vfs fs ps =
          Inr (Failure (''File not found: '' @ fp @ ''. Searched: run: Filepath cannot be empty, task: Filepath cannot be empty, global: Filepath cannot be empty'')
                 ''readFile'' (JStr fp) (JStr ''auto'')))
   \<and> (ps ''path'' = Some (JStr fp) \<and> trim fp = []
        \<and> param ps ''scope'' \<noteq> JUndefined \<and> param ps ''scope'' \<noteq> JStr ''auto''
        \<and> scopes vfs (js_to_string (param ps ''scope'')) = Some entry \<longrightarrow>
        tool_readFile vfs fs ps =
          Inr (Failure (''Failed to read file '' @ fp @ '': Filepath cannot be empty'')
                 ''readFile'' (JStr fp) (param ps ''scope'')))
   \<and> (ps ''path'' = Some (JStr fp) \<and> trim fp = [] \<longrightarrow>
        tool_fileExists vfs fs ps =
          Inr (ExistsOk False (JStr fp) (default_to (JStr ''run'') (param ps ''scope''))))"
proof (intro conjI impI)
  assume h: "ps ''path'' = Some (JStr fp) \<and> trim fp = []
      \<and> scopes vfs (js_to_string (default_to (JStr ''run'') (param ps ''scope''))) = Some entry"
  then have p: "param ps ''path'' = JStr fp" by (simp add: param_def)
  from h show v: "validateParams ps [''path''] = Inr ()" by (simp add: validateParams_def)
  from h have r: "resolvePath vfs (JStr fp) (param ps ''scope'') = Inl (Error ''Filepath cannot be empty'')"
    by (simp add: resolvePath_blank)
  show "tool_deleteFile vfs fs ps =
             (Inr (Failure (''Failed to delete '' @ fp @ '': Filepath cannot be empty'') ''deleteFile''
                     (JStr fp) (default_to (JStr ''run'') (param ps ''scope''))), fs)"
    by (simp add: tool_deleteFile_def v p deleteFile_def r)
  show "tool_fileStat vfs fs ps =
             Inr (Failure (''Failed to stat '' @ fp @ '': Filepath cannot be empty'') ''fileStat''
                     (JStr fp) (default_to (JStr ''run'') (param ps ''scope'')))"
    by (simp add: tool_fileStat_def v p stat_def r)
  show "tool_mkdir vfs fs ps =
             (Inr (Failure (''Failed to create directory '' @ fp @ '': Filepath cannot be empty'') ''mkdir''
                     (JStr fp) (default_to (JStr ''run'') (param ps ''scope''))), fs)"
    by (simp add: tool_mkdir_def v p mkdir_def r)
  show "tool_watchFile vfs fs ps changes =
             (Fulfilled (Failure (''Failed to watch '' @ fp @ '': Filepath cannot be empty'') ''watchFile''
                     (JStr fp) (default_to (JStr ''run'') (param ps ''scope''))), [])"
    by (simp add: tool_watchFile_def v p watch_def r)
  assume c: "ps ''content'' \<noteq> None"
  with h have w: "validateParams ps [''path'', ''content''] = Inr ()" by (simp add: validateParams_def)
  show "tool_writeFile vfs fs ps =
             (Inr (Failure (''Failed to write file '' @ fp @ '': Filepath cannot be empty'') ''writeFile''
                     (JStr fp) (default_to (JStr ''run'') (param ps ''scope''))), fs)"
    by (simp add: tool_writeFile_def w p writeFile_def r)
next
  assume h: "ps ''path'' = Some (JStr fp) \<and> trim fp = []
        \<and> (param ps ''scope'' = JUndefined \<or> param ps ''scope'' = JStr ''auto'')"
  then have p: "param ps ''path'' = JStr fp" by (simp add: param_def)
  from h have v: "validateParams ps [''path''] = Inr ()" by (simp add: validateParams_def)
  from h have s: "default_to (JStr ''auto'') (param ps ''scope'') = JStr ''auto''"
    by (auto simp: default_to_def)
  from h show "tool_readFile vfs fs ps =
          Inr (Failure (''File not found: '' @ fp @ ''. Searched: run: Filepath cannot be empty, task: Filepath cannot be empty, global: Filepath cannot be empty'')
                 ''readFile'' (JStr fp) (JStr ''auto''))"
    by (simp add: tool_readFile_def v p s readFile_auto_blank)
next
  assume h: "ps ''path'' = Some (JStr fp) \<and> trim fp = []
        \<and> param ps ''scope'' \<noteq> JUndefined \<and> param ps ''scope'' \<noteq> JStr ''auto''
        \<and> scopes vfs (js_to_string (param ps ''scope'')) = Some entry"
  then have p: "param ps ''path'' = JStr fp" by (simp add: param_def)
  from h have v: "validateParams ps [''path''] = Inr ()" by (simp add: validateParams_def)
  from h have s: "default_to (JStr ''auto'') (param ps ''scope'') = param ps ''scope''"
    by (auto simp: default_to_def)
  from h have "readFile vfs fs (JStr fp) (param ps ''scope'') =
     Inl (Error (''Failed to read file '' @ fp @ '': Filepath cannot be empty''))"
    by (simp add: readFile_concrete_blank)
  then show "tool_readFile vfs fs ps =
          Inr (Failure (''Failed to read file '' @ fp @ '': Filepath cannot be empty'')
                 ''readFile'' (JStr fp) (param ps ''scope''))"
    by (simp add: tool_readFile_def v p s)
next
  assume h: "ps ''path'' = Some (JStr fp) \<and> trim fp = []"
  then have p: "param ps ''path'' = JStr fp" by (simp add: param_def)
  from h have v: "validateParams ps [''path''] = Inr ()" by (simp add: validateParams_def)
  from h have "\<exists>e. resolvePath vfs (JStr fp) (param ps ''scope'') = Inl e"
    by (auto simp: resolvePath_def Let_def split: option.splits)
  then show "tool_fileExists vfs fs ps =
          Inr (ExistsOk False (JStr fp) (default_to (JStr ''run'') (param ps ''scope'')))"
    by (auto simp: tool_fileExists_def v p exists_vfs_def)
qed


text \<open>
  A path of a no-break space (U+00A0) and a space, with \<open>content\<close> and no
  \<open>scope\<close>.
\<close>

theorem blank_path_passes_validation_witness:
  "[''path'' \<mapsto> JStr [CHR 0xC2, CHR 0xA0, CHR 0x20], ''content'' \<mapsto> JStr ''x''] ''path''
      = Some (JStr [CHR 0xC2, CHR 0xA0, CHR 0x20])
   \<and> trim [CHR 0xC2, CHR 0xA0, CHR 0x20] = []
   \<and> scopes sample_vfs (js_to_string (default_to (JStr ''run'')
         (param [''path'' \<mapsto> JStr [CHR 0xC2, CHR 0xA0, CHR 0x20], ''content'' \<mapsto> JStr ''x''] ''scope'')))
       = Some (Root ''/eco/tasks/t1/runs/r1/fs'')
   \<and> validateParams [''path'' \<mapsto> JStr [CHR 0xC2, CHR 0xA0, CHR 0x20], ''content'' \<mapsto> JStr ''x''] [''path'']
       = Inr ()
   \<and> tool_writeFile sample_vfs fresh_fs
         [''path'' \<mapsto> JStr [CHR 0xC2, CHR 0xA0, CHR 0x20], ''content'' \<mapsto> JStr ''x'']
       = (Inr (Failure (''Failed to write file '' @ [CHR 0xC2, CHR 0xA0, CHR 0x20] @ '': Filepath cannot be empty'')
                 ''writeFile'' (JStr [CHR 0xC2, CHR 0xA0, CHR 0x20]) (JStr ''run'')), fresh_fs)
   \<and> tool_mkdir sample_vfs fresh_fs
         [''path'' \<mapsto> JStr [CHR 0xC2, CHR 0xA0, CHR 0x20], ''content'' \<mapsto> JStr ''x'']
       = (Inr (Failure (''Failed to create directory '' @ [CHR 0xC2, CHR 0xA0, CHR 0x20] @ '': Filepath cannot be empty'')
                 ''mkdir'' (JStr [CHR 0xC2, CHR 0xA0, CHR 0x20]) (JStr ''run'')), fresh_fs)
   \<and> tool_readFile sample_vfs fresh_fs
         [''path'' \<mapsto> JStr [CHR 0xC2, CHR 0xA0, CHR 0x20], ''content'' \<mapsto> JStr ''x'']
       = Inr (Failure (''File not found: '' @ [CHR 0xC2, CHR 0xA0, CHR 0x20]
                       @ ''. Searched: run: Filepath cannot be empty, task: Filepath cannot be empty, global: Filepath cannot be empty'')
                ''readFile'' (JStr [CHR 0xC2, CHR 0xA0, CHR 0x20]) (JStr ''auto''))
   \<and> tool_fileExists sample_vfs fresh_fs
         [''path'' \<mapsto> JStr [CHR 0xC2, CHR 0xA0, CHR 0x20], ''content'' \<mapsto> JStr ''x'']
       = Inr (ExistsOk False (JStr [CHR 0xC2, CHR 0xA0, CHR 0x20]) (JStr ''run''))"
proof -
  have t: "trim [CHR 0xC2, CHR 0xA0, CHR 0x20] = []" by code_simp
  have s: "scopes sample_vfs ''run'' = Some (Root ''/eco/tasks/t1/runs/r1/fs'')" by code_simp
  from blank_path_passes_validation
         [where ps = "[''path'' \<mapsto> JStr [CHR 0xC2, CHR 0xA0, CHR 0x20], ''content'' \<mapsto> JStr ''x'']"
            and fp = "[CHR 0xC2, CHR 0xA0, CHR 0x20]" and vfs = sample_vfs
            and entry = "Root ''/eco/tasks/t1/runs/r1/fs''" and fs = fresh_fs] t s
  show ?thesis by (simp add: param_def default_to_def)
qed

text \<open>
  Claim C10 as stated fails for \<open>fileExists\<close>, a tool that requires \<open>path\<close>: with
  the empty string it returns a success object, not a failure.
\<close>

theorem fileExists_blank_path_counterexample:
  "validateParams [''path'' \<mapsto> JStr []] [''path''] = Inr ()
   \<and> tool_fileExists sample_vfs fresh_fs [''path'' \<mapsto> JStr []] = Inr (ExistsOk False (JStr []) (JStr ''run''))"
  by code_simp

section \<open>Watching a file\<close>

lemma foldl_settled:
  "foldl (\<lambda>p c. settle p (f c)) (Fulfilled v) cs = Fulfilled v"
  by (induction cs) (simp_all add: settle_def)

lemma settle_Pending: "settle Pending v = Fulfilled v"
  by (simp add: settle_def)

lemma watch_exists:
  assumes "resolvePath vfs path sc = Inr fullPath" and "existsSync fs fullPath"
  shows "watch vfs fs path (default_to (JStr ''run'') sc) = Inr \<lparr>wh_fullPath = fullPath\<rparr>"
  using assms by (simp add: watch_def)

text \<open>
  Claim C9. On a path that resolves and exists, \<open>watchFile\<close> stays pending as long
  as no change notification arrives, and resolves to
  \<open>{success: true, event, path, scope}\<close> with the event of the first notification,
  whatever notifications follow. The handle of \<open>watch\<close> is not part of what the
  tool returns, and its watcher stays open.
\<close>

theorem watchFile_one_shot:
  "ps ''path'' = Some path \<and> resolvePath vfs path (param ps ''scope'') = Inr fullPath
     \<and> existsSync fs fullPath \<longrightarrow>
   tool_watchFile vfs fs ps [] = (Pending, [\<lparr>wh_fullPath = fullPath\<rparr>])
   \<and> tool_watchFile vfs fs ps (c # cs) =
       (Fulfilled (WatchOk \<lparr>we_event = ch_eventType c, we_filename = ch_filename c, we_path = path,
                            we_scope = default_to (JStr ''run'') (param ps ''scope'')\<rparr>
                     path (default_to (JStr ''run'') (param ps ''scope''))),
        [\<lparr>wh_fullPath = fullPath\<rparr>])"
proof (intro impI)
  assume h: "ps ''path'' = Some path \<and> resolvePath vfs path (param ps ''scope'') = Inr fullPath
     \<and> existsSync fs fullPath"
  then have p: "param ps ''path'' = path" by (simp add: param_def)
  from h have v: "validateParams ps [''path''] = Inr ()" by (simp add: validateParams_def)
  from h have w: "watch vfs fs path (default_to (JStr ''run'') (param ps ''scope'')) = Inr \<lparr>wh_fullPath = fullPath\<rparr>"
    by (simp add: watch_exists)
  have d: "default_to (JStr ''run'') (default_to (JStr ''run'') x) = default_to (JStr ''run'') x" for x
    by (simp add: default_to_def)
  show "tool_watchFile vfs fs ps [] = (Pending, [\<lparr>wh_fullPath = fullPath\<rparr>])
   \<and> tool_watchFile vfs fs ps (c # cs) =
       (Fulfilled (WatchOk \<lparr>we_event = ch_eventType c, we_filename = ch_filename c, we_path = path,
                            we_scope = default_to (JStr ''run'') (param ps ''scope'')\<rparr>
                     path (default_to (JStr ''run'') (param ps ''scope''))),
        [\<lparr>wh_fullPath = fullPath\<rparr>])"
    by (simp add: tool_watchFile_def v p w settle_Pending foldl_settled watch_listener_def d Let_def)
qed

text \<open>Two notifications on a watched file: the first one settles the promise.\<close>

theorem watchFile_one_shot_witness:
  "[''path'' \<mapsto> JStr ''a.txt''] ''path'' = Some (JStr ''a.txt'')
   \<and> resolvePath sample_vfs (JStr ''a.txt'') (param [''path'' \<mapsto> JStr ''a.txt''] ''scope'')
        = Inr ''/eco/tasks/t1/runs/r1/fs/a.txt''
   \<and> existsSync shadowed_fs ''/eco/tasks/t1/runs/r1/fs/a.txt''
   \<and> tool_watchFile sample_vfs shadowed_fs [''path'' \<mapsto> JStr ''a.txt''] [] =
        (Pending, [\<lparr>wh_fullPath = ''/eco/tasks/t1/runs/r1/fs/a.txt''\<rparr>])
   \<and> tool_watchFile sample_vfs shadowed_fs [''path'' \<mapsto> JStr ''a.txt'']
        [\<lparr>ch_eventType = ''change'', ch_filename = ''a.txt''\<rparr>,
         \<lparr>ch_eventType = ''rename'', ch_filename = ''a.txt''\<rparr>] =
        (Fulfilled (WatchOk \<lparr>we_event = ''change'', we_filename = ''a.txt'', we_path = JStr ''a.txt'',
                             we_scope = JStr ''run''\<rparr> (JStr ''a.txt'') (JStr ''run'')),
         [\<lparr>wh_fullPath = ''/eco/tasks/t1/runs/r1/fs/a.txt''\<rparr>])"
proof -
  have r: "resolvePath sample_vfs (JStr ''a.txt'') JUndefined = Inr ''/eco/tasks/t1/runs/r1/fs/a.txt''"
    by code_simp
  have e: "existsSync shadowed_fs ''/eco/tasks/t1/runs/r1/fs/a.txt''" by code_simp
  from watchFile_one_shot
         [of "[''path'' \<mapsto> JStr ''a.txt'']" "JStr ''a.txt''" sample_vfs
             "''/eco/tasks/t1/runs/r1/fs/a.txt''" shadowed_fs
             "\<lparr>ch_eventType = ''change'', ch_filename = ''a.txt''\<rparr>"
             "[\<lparr>ch_eventType = ''rename'', ch_filename = ''a.txt''\<rparr>]"] r e
  show ?thesis by (simp add: param_def default_to_def)
qed

section \<open>Reading through the scopes\<close>

lemma stat_file_exists: "fs_stat fs p = Inr n \<Longrightarrow> existsSync fs p"
  by (simp add: existsSync_def)







section \<open>Writing, then reading\<close>

lemma locate_entries [simp]: "locate (fs\<lparr>entries := es\<rparr>) p = locate fs p"
  by (simp add: locate_def)





section \<open>Deleting\<close>

lemma lookup_rm_recursive:
  "lookup (fs_rm_recursive fs p) k =
     (if prefix (locate fs p) k \<and> k \<noteq> [] then None else lookup fs k)"
proof -
  have "map_of (filter (\<lambda>(k, n). \<not> prefix l k) es) k = (if prefix l k then None else map_of es k)"
    for l and es :: "(string list \<times> node) list"
    by (induction es) auto
  then show ?thesis by (simp add: lookup_def fs_rm_recursive_def)
qed

lemma locate_rm_recursive [simp]: "locate (fs_rm_recursive fs p) q = locate fs q"
  by (simp add: fs_rm_recursive_def)

lemma existsSync_lookup: "existsSync fs q \<Longrightarrow> lookup fs (locate fs q) \<noteq> None"
  by (auto simp: existsSync_def fs_stat_def split: option.splits)

lemma lookup_unlink:
  "fs_unlink fs p = Inr fs' \<Longrightarrow>
   lookup fs' k = (if k = locate fs p then None else lookup fs k)"
  by (auto simp: fs_unlink_def fs_stat_def lookup_def delete_conv'
           split: sum.splits option.splits node.splits if_splits)

text \<open>
  Claim C6. For a path that resolves: when the resolved path does not exist,
  \<open>deleteFile\<close> fails with \<open>File not found\<close> and leaves the store as it was. When
  it is a directory, the call succeeds and in the store it leaves no path located at
  or below that directory exists, so \<open>exists\<close> is false for every logical path that
  resolves there, and every entry elsewhere is as before. When it is a file, the
  call succeeds, that file is gone, and every other entry is as before.
\<close>

theorem deleteFile_cases:
  "(resolvePath vfs p scope = Inr f \<and> \<not> existsSync fs f \<longrightarrow>
      deleteFile vfs fs p scope =
        (Inl (Error (''Failed to delete '' @ js_to_string p @ '': File not found: '' @ js_to_string p)), fs))
   \<and> (resolvePath vfs p scope = Inr f \<and> fs_stat fs f = Inr Dir \<longrightarrow>
        (\<exists>fs'. deleteFile vfs fs p scope =
                 (Inr \<lparr>pr_path = p, pr_scope = default_to (JStr ''run'') scope\<rparr>, fs')
             \<and> (\<forall>q. prefix (locate fs f) (locate fs q) \<and> locate fs q \<noteq> [] \<longrightarrow> \<not> existsSync fs' q)
             \<and> (\<forall>child sc g. resolvePath vfs child sc = Inr g
                     \<and> prefix (locate fs f) (locate fs g) \<and> locate fs g \<noteq> []
                   \<longrightarrow> exists_vfs vfs fs' child sc = False)
             \<and> (\<forall>k. \<not> prefix (locate fs f) k \<longrightarrow> lookup fs' k = lookup fs k)))
   \<and> (resolvePath vfs p scope = Inr f \<and> fs_stat fs f = Inr (File c) \<longrightarrow>
        (\<exists>fs'. deleteFile vfs fs p scope =
                 (Inr \<lparr>pr_path = p, pr_scope = default_to (JStr ''run'') scope\<rparr>, fs')
             \<and> lookup fs' (locate fs f) = None
             \<and> (\<forall>k. k \<noteq> locate fs f \<longrightarrow> lookup fs' k = lookup fs k)))"
proof (intro conjI impI)
  assume "resolvePath vfs p scope = Inr f \<and> \<not> existsSync fs f"
  then show "deleteFile vfs fs p scope =
        (Inl (Error (''Failed to delete '' @ js_to_string p @ '': File not found: '' @ js_to_string p)), fs)"
    by (simp add: deleteFile_def)
next
  assume h: "resolvePath vfs p scope = Inr f \<and> fs_stat fs f = Inr Dir"
  then have e: "existsSync fs f" by (simp add: stat_file_exists)
  let ?fs' = "fs_rm_recursive fs f"
  have d: "deleteFile vfs fs p scope =
                 (Inr \<lparr>pr_path = p, pr_scope = default_to (JStr ''run'') scope\<rparr>, ?fs')"
    using h e by (simp add: deleteFile_def)
  have gone: "\<not> existsSync ?fs' q" if "prefix (locate fs f) (locate fs q) \<and> locate fs q \<noteq> []" for q
  proof
    assume "existsSync ?fs' q"
    then have "lookup ?fs' (locate ?fs' q) \<noteq> None" by (rule existsSync_lookup)
    with that show False by (simp add: lookup_rm_recursive)
  qed
  have kids: "exists_vfs vfs ?fs' child sc = False"
    if "resolvePath vfs child sc = Inr g \<and> prefix (locate fs f) (locate fs g) \<and> locate fs g \<noteq> []"
    for child sc g
    using that gone [of g] by (simp add: exists_vfs_def)
  have rest: "lookup ?fs' k = lookup fs k" if "\<not> prefix (locate fs f) k" for k
    using that by (simp add: lookup_rm_recursive)
  from d gone kids rest
  show "\<exists>fs'. deleteFile vfs fs p scope =
                 (Inr \<lparr>pr_path = p, pr_scope = default_to (JStr ''run'') scope\<rparr>, fs')
             \<and> (\<forall>q. prefix (locate fs f) (locate fs q) \<and> locate fs q \<noteq> [] \<longrightarrow> \<not> existsSync fs' q)
             \<and> (\<forall>child sc g. resolvePath vfs child sc = Inr g
                     \<and> prefix (locate fs f) (locate fs g) \<and> locate fs g \<noteq> []
                   \<longrightarrow> exists_vfs vfs fs' child sc = False)
             \<and> (\<forall>k. \<not> prefix (locate fs f) k \<longrightarrow> lookup fs' k = lookup fs k)"
    by blast
next
  assume h: "resolvePath vfs p scope = Inr f \<and> fs_stat fs f = Inr (File c)"
  then have e: "existsSync fs f" by (simp add: stat_file_exists)
  from h obtain fs' where u: "fs_unlink fs f = Inr fs'"
    by (auto simp: fs_unlink_def)
  have d: "deleteFile vfs fs p scope =
                 (Inr \<lparr>pr_path = p, pr_scope = default_to (JStr ''run'') scope\<rparr>, fs')"
    using h e u by (simp add: deleteFile_def)
  have a: "lookup fs' (locate fs f) = None"
    using lookup_unlink [OF u, of "locate fs f"] by simp
  have b: "lookup fs' k = lookup fs k" if "k \<noteq> locate fs f" for k
    using lookup_unlink [OF u, of k] that by simp
  from d a b show "\<exists>fs'. deleteFile vfs fs p scope =
                 (Inr \<lparr>pr_path = p, pr_scope = default_to (JStr ''run'') scope\<rparr>, fs')
             \<and> lookup fs' (locate fs f) = None
             \<and> (\<forall>k. k \<noteq> locate fs f \<longrightarrow> lookup fs' k = lookup fs k)"
    by blast
qed


text \<open>
  A missing path; the directory \<open>sub\<close> with its file \<open>f.txt\<close>; and the run copy of
  \<open>a.txt\<close>, whose removal leaves the global copy.
\<close>

theorem deleteFile_cases_witness:
  "(resolvePath sample_vfs (JStr ''zzz'') (JStr ''run'') = Inr ''/eco/tasks/t1/runs/r1/fs/zzz''
    \<and> \<not> existsSync fresh_fs ''/eco/tasks/t1/runs/r1/fs/zzz''
    \<and> deleteFile sample_vfs fresh_fs (JStr ''zzz'') (JStr ''run'') =
        (Inl (Error ''Failed to delete zzz: File not found: zzz''), fresh_fs))
   \<and> (resolvePath sample_vfs (JStr ''sub'') (JStr ''run'') = Inr ''/eco/tasks/t1/runs/r1/fs/sub''
    \<and> fs_stat nested_fs ''/eco/tasks/t1/runs/r1/fs/sub'' = Inr Dir
    \<and> exists_vfs sample_vfs nested_fs (JStr ''sub/f.txt'') (JStr ''run'')
    \<and> fst (deleteFile sample_vfs nested_fs (JStr ''sub'') (JStr ''run'')) =
         Inr \<lparr>pr_path = JStr ''sub'', pr_scope = JStr ''run''\<rparr>
    \<and> \<not> exists_vfs sample_vfs (snd (deleteFile sample_vfs nested_fs (JStr ''sub'') (JStr ''run'')))
           (JStr ''sub/f.txt'') (JStr ''run'')
    \<and> \<not> exists_vfs sample_vfs (snd (deleteFile sample_vfs nested_fs (JStr ''sub'') (JStr ''run'')))
           (JStr ''sub'') (JStr ''run''))
   \<and> (resolvePath sample_vfs (JStr ''a.txt'') (JStr ''run'') = Inr ''/eco/tasks/t1/runs/r1/fs/a.txt''
    \<and> fs_stat shadowed_fs ''/eco/tasks/t1/runs/r1/fs/a.txt'' = Inr (File ''from run'')
    \<and> fst (deleteFile sample_vfs shadowed_fs (JStr ''a.txt'') (JStr ''run'')) =
         Inr \<lparr>pr_path = JStr ''a.txt'', pr_scope = JStr ''run''\<rparr>
    \<and> lookup (snd (deleteFile sample_vfs shadowed_fs (JStr ''a.txt'') (JStr ''run'')))
         [''eco'', ''tasks'', ''t1'', ''runs'', ''r1'', ''fs'', ''a.txt''] = None
    \<and> lookup (snd (deleteFile sample_vfs shadowed_fs (JStr ''a.txt'') (JStr ''run'')))
         [''eco'', ''vfs'', ''global'', ''a.txt''] = Some (File ''from global''))"
proof -
  have a1: "resolvePath sample_vfs (JStr ''zzz'') (JStr ''run'') = Inr ''/eco/tasks/t1/runs/r1/fs/zzz''"
    by code_simp
  have a2: "\<not> existsSync fresh_fs ''/eco/tasks/t1/runs/r1/fs/zzz''" by code_simp
  have b1: "resolvePath sample_vfs (JStr ''sub'') (JStr ''run'') = Inr ''/eco/tasks/t1/runs/r1/fs/sub''"
    by code_simp
  have b2: "fs_stat nested_fs ''/eco/tasks/t1/runs/r1/fs/sub'' = Inr Dir" by code_simp
  have b3: "exists_vfs sample_vfs nested_fs (JStr ''sub/f.txt'') (JStr ''run'')" by code_simp
  have b4: "resolvePath sample_vfs (JStr ''sub/f.txt'') (JStr ''run'') = Inr ''/eco/tasks/t1/runs/r1/fs/sub/f.txt''"
    by code_simp
  have b5: "locate nested_fs ''/eco/tasks/t1/runs/r1/fs/sub'' = [''eco'', ''tasks'', ''t1'', ''runs'', ''r1'', ''fs'', ''sub'']"
    by code_simp
  have b6: "locate nested_fs ''/eco/tasks/t1/runs/r1/fs/sub/f.txt'' = [''eco'', ''tasks'', ''t1'', ''runs'', ''r1'', ''fs'', ''sub'', ''f.txt'']"
    by code_simp
  have c1: "resolvePath sample_vfs (JStr ''a.txt'') (JStr ''run'') = Inr ''/eco/tasks/t1/runs/r1/fs/a.txt''"
    by code_simp
  have c2: "fs_stat shadowed_fs ''/eco/tasks/t1/runs/r1/fs/a.txt'' = Inr (File ''from run'')"
    by code_simp
  have c3: "locate shadowed_fs ''/eco/tasks/t1/runs/r1/fs/a.txt'' = [''eco'', ''tasks'', ''t1'', ''runs'', ''r1'', ''fs'', ''a.txt'']"
    by code_simp
  have c4: "lookup shadowed_fs [''eco'', ''vfs'', ''global'', ''a.txt''] = Some (File ''from global'')"
    by code_simp
  have A: "deleteFile sample_vfs fresh_fs (JStr ''zzz'') (JStr ''run'') =
        (Inl (Error ''Failed to delete zzz: File not found: zzz''), fresh_fs)"
    using deleteFile_cases [where vfs = sample_vfs and fs = fresh_fs and p = "JStr ''zzz''"
            and scope = "JStr ''run''" and f = "''/eco/tasks/t1/runs/r1/fs/zzz''"] a1 a2
    by simp
  from deleteFile_cases [where vfs = sample_vfs and fs = nested_fs and p = "JStr ''sub''"
            and scope = "JStr ''run''" and f = "''/eco/tasks/t1/runs/r1/fs/sub''"] b1 b2
  obtain fs' where
    B1: "deleteFile sample_vfs nested_fs (JStr ''sub'') (JStr ''run'') =
           (Inr \<lparr>pr_path = JStr ''sub'', pr_scope = default_to (JStr ''run'') (JStr ''run'')\<rparr>, fs')" and
    B2: "\<forall>child sc g. resolvePath sample_vfs child sc = Inr g
            \<and> prefix (locate nested_fs ''/eco/tasks/t1/runs/r1/fs/sub'') (locate nested_fs g)
            \<and> locate nested_fs g \<noteq> []
          \<longrightarrow> exists_vfs sample_vfs fs' child sc = False"
    by blast
  from B2 b4 b5 b6 have B3: "\<not> exists_vfs sample_vfs fs' (JStr ''sub/f.txt'') (JStr ''run'')"
    by (auto simp: prefix_def)
  from B2 b1 b5 have B4: "\<not> exists_vfs sample_vfs fs' (JStr ''sub'') (JStr ''run'')"
    by auto
  from deleteFile_cases [where vfs = sample_vfs and fs = shadowed_fs and p = "JStr ''a.txt''"
            and scope = "JStr ''run''" and f = "''/eco/tasks/t1/runs/r1/fs/a.txt''"
            and c = "''from run''"] c1 c2
  obtain fs'' where
    C1: "deleteFile sample_vfs shadowed_fs (JStr ''a.txt'') (JStr ''run'') =
           (Inr \<lparr>pr_path = JStr ''a.txt'', pr_scope = default_to (JStr ''run'') (JStr ''run'')\<rparr>, fs'')" and
    C2: "lookup fs'' (locate shadowed_fs ''/eco/tasks/t1/runs/r1/fs/a.txt'') = None" and
    C3: "\<forall>k. k \<noteq> locate shadowed_fs ''/eco/tasks/t1/runs/r1/fs/a.txt'' \<longrightarrow> lookup fs'' k = lookup shadowed_fs k"
    by blast
  from C3 c3 c4 have C4: "lookup fs'' [''eco'', ''vfs'', ''global'', ''a.txt''] = Some (File ''from global'')"
    by simp
  show ?thesis
    using a1 a2 A b1 b2 b3 B1 B3 B4 c1 c2 C1 C2 c3 C4 by (simp add: default_to_def)
qed

section \<open>Creating directories\<close>

lemma map_of_fold_update:
  "map_of (fold (\<lambda>a. AList.update a Dir) as es) k =
     (if k \<in> set as then Some Dir else map_of es k)"
  by (induction as arbitrary: es) (auto simp: update_conv')

lemma fold_update_idem:
  "\<forall>a \<in> set as. map_of es a = Some Dir \<Longrightarrow> fold (\<lambda>a. AList.update a Dir) as es = es"
  by (induction as arbitrary: es) (auto simp: update_triv)

lemma distinct_fold_update:
  "distinct (map fst es) \<Longrightarrow> distinct (map fst (fold (\<lambda>a. AList.update a (v::node)) as es))"
  by (induction as arbitrary: es) (auto simp: distinct_update)

lemma self_in_ancestors: "loc \<noteq> [] \<Longrightarrow> loc \<in> set (ancestors_and_self loc)"
proof -
  assume "loc \<noteq> []"
  then have "length loc \<in> set [1..<Suc (length loc)]" by (cases loc) auto
  then have "take (length loc) loc \<in> (\<lambda>n. take n loc) ` set [1..<Suc (length loc)]" by (rule imageI)
  then show ?thesis unfolding ancestors_and_self_def set_map by simp
qed

lemma nil_notin_ancestors: "[] \<notin> set (ancestors_and_self loc)"
  by (auto simp: ancestors_and_self_def)

lemma count_distinct:
  "distinct (map fst es) \<Longrightarrow> map_of es k = Some v \<Longrightarrow> length (filter (\<lambda>(k', n). k' = k) es) = 1"
proof (induction es)
  case Nil
  then show ?case by simp
next
  case (Cons e es)
  obtain k' n where e: "e = (k', n)" by (cases e)
  show ?case
  proof (cases "k' = k")
    case True
    with Cons.prems e have "k \<notin> fst ` set es" by auto
    then have "filter (\<lambda>(k', n). k' = k) es = []"
      by (auto simp: filter_empty_conv image_iff)
    with True e show ?thesis by simp
  next
    case False
    with Cons e show ?thesis by simp
  qed
qed


lemma mkdir_recursive_ok:
  assumes "\<not> list_ex (\<lambda>a. is_file (lookup fs a)) (ancestors_and_self (locate fs p))"
  shows "mkdir_recursive fs p =
           Inr (fs\<lparr>entries := fold (\<lambda>a. AList.update a Dir) (ancestors_and_self (locate fs p)) (entries fs)\<rparr>)"
proof (cases "locate fs p = []")
  case True
  then show ?thesis by (simp add: mkdir_recursive_def ancestors_and_self_def lookup_def)
next
  case False
  then have "locate fs p \<in> set (ancestors_and_self (locate fs p))" by (rule self_in_ancestors)
  with assms have 1: "\<not> is_file (lookup fs (locate fs p))" by (auto simp: list_ex_iff)
  from assms have 2: "\<not> list_ex (\<lambda>a. is_file (lookup fs a)) (butlast (ancestors_and_self (locate fs p)))"
    by (auto simp: list_ex_iff dest: in_set_butlastD)
  from 1 2 show ?thesis by (simp add: mkdir_recursive_def Let_def)
qed

text \<open>
  Claim C8. For a path that resolves, with no regular file at the resolved location
  or on the way to it, \<open>mkdir\<close> succeeds, and a second \<open>mkdir\<close> of the same path
  on the store that the first one leaves succeeds with the same result and leaves
  that store unchanged. The resolved path is then a directory, and when the entries
  had distinct locations before, the directory is entered exactly once.
\<close>

theorem mkdir_idempotent:
  "resolvePath vfs p scope = Inr f
     \<and> \<not> list_ex (\<lambda>a. is_file (lookup fs a)) (ancestors_and_self (locate fs f)) \<longrightarrow>
   (\<exists>fs'. mkdir vfs fs p scope =
             (Inr \<lparr>mk_path = p, mk_scope = default_to (JStr ''run'') scope, mk_fullPath = f\<rparr>, fs')
         \<and> mkdir vfs fs' p scope =
             (Inr \<lparr>mk_path = p, mk_scope = default_to (JStr ''run'') scope, mk_fullPath = f\<rparr>, fs')
         \<and> fs_stat fs' f = Inr Dir
         \<and> (distinct (map fst (entries fs)) \<and> locate fs f \<noteq> [] \<longrightarrow>
              length (filter (\<lambda>(k, n). k = locate fs f) (entries fs')) = 1))"
proof (intro impI)
  assume h: "resolvePath vfs p scope = Inr f
     \<and> \<not> list_ex (\<lambda>a. is_file (lookup fs a)) (ancestors_and_self (locate fs f))"
  let ?as = "ancestors_and_self (locate fs f)"
  let ?es = "fold (\<lambda>a. AList.update a Dir) ?as (entries fs)"
  let ?fs' = "fs\<lparr>entries := ?es\<rparr>"
  from h have m1: "mkdir_recursive fs f = Inr ?fs'" by (simp add: mkdir_recursive_ok)
  have loc: "locate ?fs' q = locate fs q" for q by (simp add: locate_def)
  have dirs: "lookup ?fs' a = Some Dir" if "a \<in> set ?as" for a
    using that nil_notin_ancestors [of "locate fs f"]
    by (auto simp: lookup_def map_of_fold_update)
  have here: "lookup ?fs' (locate fs f) = Some Dir"
  proof (cases "locate fs f = []")
    case True
    then show ?thesis by (simp add: lookup_def)
  next
    case False
    then show ?thesis by (simp add: dirs self_in_ancestors)
  qed
  have nofile: "\<not> list_ex (\<lambda>a. is_file (lookup ?fs' a)) (ancestors_and_self (locate ?fs' f))"
    unfolding loc by (auto simp: list_ex_iff dirs)
  have same: "fold (\<lambda>a. AList.update a Dir) ?as ?es = ?es"
    by (rule fold_update_idem) (simp add: map_of_fold_update)
  have m2: "mkdir_recursive ?fs' f = Inr ?fs'"
    using mkdir_recursive_ok [OF nofile] by (simp add: loc same)
  have st: "fs_stat ?fs' f = Inr Dir"
    using here by (simp add: fs_stat_def loc)
  have once: "length (filter (\<lambda>(k, n). k = locate fs f) (entries ?fs')) = 1"
    if "distinct (map fst (entries fs)) \<and> locate fs f \<noteq> []"
  proof -
    from that have d: "distinct (map fst ?es)" by (simp add: distinct_fold_update)
    from that have "map_of ?es (locate fs f) = Some Dir"
      by (simp add: map_of_fold_update self_in_ancestors)
    with d show ?thesis by (simp add: count_distinct)
  qed
  from h m1 have c1: "mkdir vfs fs p scope =
             (Inr \<lparr>mk_path = p, mk_scope = default_to (JStr ''run'') scope, mk_fullPath = f\<rparr>, ?fs')"
    by (simp add: mkdir_def)
  from h m2 have c2: "mkdir vfs ?fs' p scope =
             (Inr \<lparr>mk_path = p, mk_scope = default_to (JStr ''run'') scope, mk_fullPath = f\<rparr>, ?fs')"
    by (simp add: mkdir_def)
  show "\<exists>fs'. mkdir vfs fs p scope =
             (Inr \<lparr>mk_path = p, mk_scope = default_to (JStr ''run'') scope, mk_fullPath = f\<rparr>, fs')
         \<and> mkdir vfs fs' p scope =
             (Inr \<lparr>mk_path = p, mk_scope = default_to (JStr ''run'') scope, mk_fullPath = f\<rparr>, fs')
         \<and> fs_stat fs' f = Inr Dir
         \<and> (distinct (map fst (entries fs)) \<and> locate fs f \<noteq> [] \<longrightarrow>
              length (filter (\<lambda>(k, n). k = locate fs f) (entries fs')) = 1)"
  proof (intro exI [of _ ?fs'] conjI impI)
    show "mkdir vfs fs p scope =
             (Inr \<lparr>mk_path = p, mk_scope = default_to (JStr ''run'') scope, mk_fullPath = f\<rparr>, ?fs')"
      by (rule c1)
    show "mkdir vfs ?fs' p scope =
             (Inr \<lparr>mk_path = p, mk_scope = default_to (JStr ''run'') scope, mk_fullPath = f\<rparr>, ?fs')"
      by (rule c2)
    show "fs_stat ?fs' f = Inr Dir" by (rule st)
    assume "distinct (map fst (entries fs)) \<and> locate fs f \<noteq> []"
    then show "length (filter (\<lambda>(k, n). k = locate fs f) (entries ?fs')) = 1" by (rule once)
  qed
qed


text \<open>On the fresh store, \<open>d/e\<close> in the default scope, made twice.\<close>

theorem mkdir_idempotent_witness:
  "resolvePath sample_vfs (JStr ''d/e'') JUndefined = Inr ''/eco/tasks/t1/runs/r1/fs/d/e''
   \<and> \<not> list_ex (\<lambda>a. is_file (lookup fresh_fs a))
          (ancestors_and_self (locate fresh_fs ''/eco/tasks/t1/runs/r1/fs/d/e''))
   \<and> distinct (map fst (entries fresh_fs))
   \<and> locate fresh_fs ''/eco/tasks/t1/runs/r1/fs/d/e''
        = [''eco'', ''tasks'', ''t1'', ''runs'', ''r1'', ''fs'', ''d'', ''e'']
   \<and> fst (mkdir sample_vfs fresh_fs (JStr ''d/e'') JUndefined) =
        Inr \<lparr>mk_path = JStr ''d/e'', mk_scope = JStr ''run'',
              mk_fullPath = ''/eco/tasks/t1/runs/r1/fs/d/e''\<rparr>
   \<and> mkdir sample_vfs (snd (mkdir sample_vfs fresh_fs (JStr ''d/e'') JUndefined)) (JStr ''d/e'') JUndefined =
        (Inr \<lparr>mk_path = JStr ''d/e'', mk_scope = JStr ''run'',
               mk_fullPath = ''/eco/tasks/t1/runs/r1/fs/d/e''\<rparr>,
         snd (mkdir sample_vfs fresh_fs (JStr ''d/e'') JUndefined))
   \<and> fs_stat (snd (mkdir sample_vfs fresh_fs (JStr ''d/e'') JUndefined))
        ''/eco/tasks/t1/runs/r1/fs/d/e'' = Inr Dir
   \<and> length (filter (\<lambda>(k, n). k = [''eco'', ''tasks'', ''t1'', ''runs'', ''r1'', ''fs'', ''d'', ''e''])
                (entries (snd (mkdir sample_vfs fresh_fs (JStr ''d/e'') JUndefined)))) = 1"
proof -
  have r: "resolvePath sample_vfs (JStr ''d/e'') JUndefined = Inr ''/eco/tasks/t1/runs/r1/fs/d/e''"
    by code_simp
  have n: "\<not> list_ex (\<lambda>a. is_file (lookup fresh_fs a))
          (ancestors_and_self (locate fresh_fs ''/eco/tasks/t1/runs/r1/fs/d/e''))"
    by code_simp
  have d: "distinct (map fst (entries fresh_fs))" by code_simp
  have l: "locate fresh_fs ''/eco/tasks/t1/runs/r1/fs/d/e''
        = [''eco'', ''tasks'', ''t1'', ''runs'', ''r1'', ''fs'', ''d'', ''e'']"
    by code_simp
  from mkdir_idempotent [where vfs = sample_vfs and fs = fresh_fs and p = "JStr ''d/e''"
         and scope = JUndefined and f = "''/eco/tasks/t1/runs/r1/fs/d/e''"] r n
  obtain fs' where
    1: "mkdir sample_vfs fresh_fs (JStr ''d/e'') JUndefined =
          (Inr \<lparr>mk_path = JStr ''d/e'', mk_scope = default_to (JStr ''run'') JUndefined,
                 mk_fullPath = ''/eco/tasks/t1/runs/r1/fs/d/e''\<rparr>, fs')" and
    2: "mkdir sample_vfs fs' (JStr ''d/e'') JUndefined =
          (Inr \<lparr>mk_path = JStr ''d/e'', mk_scope = default_to (JStr ''run'') JUndefined,
                 mk_fullPath = ''/eco/tasks/t1/runs/r1/fs/d/e''\<rparr>, fs')" and
    3: "fs_stat fs' ''/eco/tasks/t1/runs/r1/fs/d/e'' = Inr Dir" and
    4: "distinct (map fst (entries fresh_fs)) \<and> locate fresh_fs ''/eco/tasks/t1/runs/r1/fs/d/e'' \<noteq> [] \<longrightarrow>
          length (filter (\<lambda>(k, n). k = locate fresh_fs ''/eco/tasks/t1/runs/r1/fs/d/e'') (entries fs')) = 1"
    by blast
  from 4 d l have 5: "length (filter (\<lambda>(k, n). k = [''eco'', ''tasks'', ''t1'', ''runs'', ''r1'', ''fs'', ''d'', ''e''])
                (entries fs')) = 1" by simp
  show ?thesis using r n d l 1 2 3 5 by (simp add: default_to_def)
qed

section \<open>Recursive listing\<close>

lemma default_to_idem: "default_to d (default_to d v) = default_to d v"
  by (simp add: default_to_def)

lemma listFiles_default:
  "listFiles vfs fs p (default_to (JStr ''run'') sc) = listFiles vfs fs p sc"
  by (simp add: listFiles_def default_to_idem)

lemma tool_listFiles_flat:
  assumes "flat vfs fs sc d"
  shows "tool_listFiles (Suc m) vfs fs
           [''path'' \<mapsto> JStr (it_path d), ''scope'' \<mapsto> default_to (JStr ''run'') sc,
            ''recursive'' \<mapsto> JBool True] =
         (case listFiles vfs fs (JStr (it_path d)) sc of
            Inl e \<Rightarrow> Some (Failure (message e) ''listFiles'' (JStr (it_path d)) (default_to (JStr ''run'') sc))
          | Inr sub \<Rightarrow> Some (ListOk sub))"
proof -
  have d: "default_to x (JStr y) = JStr y" "default_to x (JBool z) = JBool z" for x y z
    by (simp_all add: default_to_def)
  show ?thesis
    using assms
    by (auto simp: flat_def param_def default_to_idem listFiles_default Let_def d
             split: sum.splits)
qed

lemma listFiles_loop_flat:
  assumes "\<forall>d \<in> set ds. flat vfs fs sc d"
  shows "ls_directories r = ds \<Longrightarrow> i \<le> length ds \<Longrightarrow>
         listFiles_loop (Suc (length ds - i + n)) vfs fs (default_to (JStr ''run'') sc) i r =
           Some (r\<lparr>ls_files := ls_files r @ concat (map (subdirectory_files vfs fs sc) (drop i ds))\<rparr>)"
proof (induction "length ds - i" arbitrary: i r)
  case 0
  then have "i = length ds" by simp
  with 0 show ?case by simp
next
  case (Suc k)
  then have lt: "i < length ds" by simp
  let ?d = "ds ! i"
  from lt assms have fl: "flat vfs fs sc ?d" by simp
  from lt have fuel: "length ds - i + n = Suc (length ds - Suc i + n)" by simp
  from lt have dr: "drop i ds = ?d # drop (Suc i) ds" by (simp add: Cons_nth_drop_Suc)
  have k: "k = length ds - Suc i" using Suc.hyps(2) by simp
  show ?case
  proof (cases "listFiles vfs fs (JStr (it_path ?d)) sc")
    case (Inl e)
    then have inner: "tool_listFiles (length ds - i + n) vfs fs
        [''path'' \<mapsto> JStr (it_path (ls_directories r ! i)),
         ''scope'' \<mapsto> default_to (JStr ''run'') sc, ''recursive'' \<mapsto> JBool True] =
        Some (Failure (message e) ''listFiles'' (JStr (it_path ?d)) (default_to (JStr ''run'') sc))"
      unfolding fuel using tool_listFiles_flat [OF fl] Suc.prems(1) by simp
    have nofiles: "subdirectory_files vfs fs sc ?d = []"
      using Inl by (simp add: subdirectory_files_def)
    have "listFiles_loop (Suc (length ds - i + n)) vfs fs (default_to (JStr ''run'') sc) i r =
          listFiles_loop (length ds - i + n) vfs fs (default_to (JStr ''run'') sc) (Suc i) r"
      using lt Suc.prems(1) inner by simp
    also have "\<dots> = Some (r\<lparr>ls_files := ls_files r @ concat (map (subdirectory_files vfs fs sc) (drop (Suc i) ds))\<rparr>)"
      unfolding fuel using Suc.hyps(1) [OF k Suc.prems(1)] lt by simp
    finally show ?thesis by (simp add: dr nofiles)
  next
    case (Inr sub)
    with fl have nd: "ls_directories sub = []" by (simp add: flat_def)
    from Inr have inner: "tool_listFiles (length ds - i + n) vfs fs
        [''path'' \<mapsto> JStr (it_path (ls_directories r ! i)),
         ''scope'' \<mapsto> default_to (JStr ''run'') sc, ''recursive'' \<mapsto> JBool True] =
        Some (ListOk sub)"
      unfolding fuel using tool_listFiles_flat [OF fl] Suc.prems(1) by simp
    have files: "subdirectory_files vfs fs sc ?d = ls_files sub"
      using Inr by (simp add: subdirectory_files_def)
    let ?r' = "r\<lparr>ls_files := ls_files r @ ls_files sub,
                   ls_directories := ls_directories r @ ls_directories sub\<rparr>"
    have r': "ls_directories ?r' = ds" using nd Suc.prems(1) by simp
    have "listFiles_loop (Suc (length ds - i + n)) vfs fs (default_to (JStr ''run'') sc) i r =
          listFiles_loop (length ds - i + n) vfs fs (default_to (JStr ''run'') sc) (Suc i) ?r'"
      using lt Suc.prems(1) inner by simp
    also have "\<dots> = Some (?r'\<lparr>ls_files := ls_files ?r' @ concat (map (subdirectory_files vfs fs sc) (drop (Suc i) ds))\<rparr>)"
      unfolding fuel using Suc.hyps(1) [OF k r'] lt by simp
    finally show ?thesis using nd Suc.prems(1) by (simp add: dr files)
  qed
qed

text \<open>
  Claim C7, as amended. When no subdirectory of the listed directory has a
  subdirectory of its own, \<open>listFiles\<close> with \<open>recursive: true\<close> lists each
  subdirectory in turn and returns, in \<open>files\<close>, the files of the directory
  followed by the files of each subdirectory, in the order of the subdirectories,
  and in \<open>directories\<close> the subdirectories. A bound of two more than the number
  of subdirectories is enough, and any larger bound gives the same.
\<close>

theorem recursive_listing_each_subdirectory:
  "listFiles vfs fs (JStr dp) sc = Inr result
     \<and> (\<forall>d \<in> set (ls_directories result). flat vfs fs sc d) \<longrightarrow>
   tool_listFiles (Suc (Suc (length (ls_directories result) + n))) vfs fs
       [''path'' \<mapsto> JStr dp, ''scope'' \<mapsto> sc, ''recursive'' \<mapsto> JBool True] =
     Some (ListOk (result\<lparr>ls_files :=
       ls_files result @ concat (map (subdirectory_files vfs fs sc) (ls_directories result))\<rparr>))"
proof (intro impI)
  assume h: "listFiles vfs fs (JStr dp) sc = Inr result
     \<and> (\<forall>d \<in> set (ls_directories result). flat vfs fs sc d)"
  let ?ds = "ls_directories result"
  have loop: "listFiles_loop (Suc (length ?ds - 0 + n)) vfs fs (default_to (JStr ''run'') sc) 0 result =
       Some (result\<lparr>ls_files := ls_files result @ concat (map (subdirectory_files vfs fs sc) (drop 0 ?ds))\<rparr>)"
    using h by (intro listFiles_loop_flat) simp_all
  show "tool_listFiles (Suc (Suc (length ?ds + n))) vfs fs
       [''path'' \<mapsto> JStr dp, ''scope'' \<mapsto> sc, ''recursive'' \<mapsto> JBool True] =
     Some (ListOk (result\<lparr>ls_files :=
       ls_files result @ concat (map (subdirectory_files vfs fs sc) ?ds)\<rparr>))"
  proof (cases "?ds = []")
    case True
    with h show ?thesis
      by (simp add: param_def listFiles_default Let_def del: listFiles_loop.simps)
         (simp add: default_to_def)
  next
    case False
    with h loop show ?thesis
      by (simp add: param_def listFiles_default Let_def del: listFiles_loop.simps)
         (simp add: default_to_def)
  qed
qed

text \<open>
  Two sibling directories: both are listed, and their files follow \<open>top.txt\<close> in
  order. The scenario of the claim,
  \<open>listFiles({path: "/", scope: "run", recursive: true})\<close> where the run scope
  holds \<open>sub\<close> with \<open>f.txt\<close> in it. And two levels down, the nested directory and
  its file are in the result.
\<close>

theorem recursive_listing_each_subdirectory_witness:
  "listFiles sample_vfs twin_fs (JStr ''/'') (JStr ''run'') =
     Inr \<lparr>ls_path = JStr ''/'', ls_scope = JStr ''run'',
           ls_files = [run_item ''top.txt'' ''/top.txt''],
           ls_directories = [run_item ''x'' ''/x'', run_item ''y'' ''/y''],
           ls_total = 3\<rparr>
   \<and> flat sample_vfs twin_fs (JStr ''run'') (run_item ''x'' ''/x'')
   \<and> flat sample_vfs twin_fs (JStr ''run'') (run_item ''y'' ''/y'')
   \<and> tool_listFiles 4 sample_vfs twin_fs
       [''path'' \<mapsto> JStr ''/'', ''scope'' \<mapsto> JStr ''run'', ''recursive'' \<mapsto> JBool True] =
     Some (ListOk
       \<lparr>ls_path = JStr ''/'', ls_scope = JStr ''run'',
        ls_files = [run_item ''top.txt'' ''/top.txt'', run_item ''x1.txt'' ''/x/x1.txt'',
                    run_item ''y1.txt'' ''/y/y1.txt'', run_item ''y2.txt'' ''/y/y2.txt''],
        ls_directories = [run_item ''x'' ''/x'', run_item ''y'' ''/y''],
        ls_total = 3\<rparr>)
   \<and> listFiles sample_vfs nested_fs (JStr ''/'') (JStr ''run'') =
     Inr \<lparr>ls_path = JStr ''/'', ls_scope = JStr ''run'', ls_files = [],
           ls_directories = [run_item ''sub'' ''/sub''], ls_total = 1\<rparr>
   \<and> flat sample_vfs nested_fs (JStr ''run'') (run_item ''sub'' ''/sub'')
   \<and> tool_listFiles 3 sample_vfs nested_fs
       [''path'' \<mapsto> JStr ''/'', ''scope'' \<mapsto> JStr ''run'', ''recursive'' \<mapsto> JBool True] =
     Some (ListOk
       \<lparr>ls_path = JStr ''/'', ls_scope = JStr ''run'',
        ls_files = [run_item ''f.txt'' ''/sub/f.txt''],
        ls_directories = [run_item ''sub'' ''/sub''],
        ls_total = 1\<rparr>)
   \<and> (case tool_listFiles 9 sample_vfs deep_fs
          [''path'' \<mapsto> JStr ''/'', ''scope'' \<mapsto> JStr ''run'', ''recursive'' \<mapsto> JBool True] of
        Some (ListOk r) \<Rightarrow>
          run_item ''f.txt'' ''/a/b/f.txt'' \<in> set (ls_files r)
          \<and> set (ls_directories r) = {run_item ''a'' ''/a'', run_item ''b'' ''/a/b''}
      | other \<Rightarrow> False)"
proof -
  have t0: "listFiles sample_vfs twin_fs (JStr ''/'') (JStr ''run'') =
     Inr \<lparr>ls_path = JStr ''/'', ls_scope = JStr ''run'',
           ls_files = [run_item ''top.txt'' ''/top.txt''],
           ls_directories = [run_item ''x'' ''/x'', run_item ''y'' ''/y''],
           ls_total = 3\<rparr>"
    by code_simp
  have tx: "flat sample_vfs twin_fs (JStr ''run'') (run_item ''x'' ''/x'')" by code_simp
  have ty: "flat sample_vfs twin_fs (JStr ''run'') (run_item ''y'' ''/y'')" by code_simp
  have fx: "subdirectory_files sample_vfs twin_fs (JStr ''run'') (run_item ''x'' ''/x'')
              = [run_item ''x1.txt'' ''/x/x1.txt'']"
    by code_simp
  have fy: "subdirectory_files sample_vfs twin_fs (JStr ''run'') (run_item ''y'' ''/y'')
              = [run_item ''y1.txt'' ''/y/y1.txt'', run_item ''y2.txt'' ''/y/y2.txt'']"
    by code_simp
  have four: "(4::nat) = Suc (Suc (length [run_item ''x'' ''/x'', run_item ''y'' ''/y''] + 0))"
    by simp
  have T: "tool_listFiles 4 sample_vfs twin_fs
       [''path'' \<mapsto> JStr ''/'', ''scope'' \<mapsto> JStr ''run'', ''recursive'' \<mapsto> JBool True] =
     Some (ListOk
       \<lparr>ls_path = JStr ''/'', ls_scope = JStr ''run'',
        ls_files = [run_item ''top.txt'' ''/top.txt'', run_item ''x1.txt'' ''/x/x1.txt'',
                    run_item ''y1.txt'' ''/y/y1.txt'', run_item ''y2.txt'' ''/y/y2.txt''],
        ls_directories = [run_item ''x'' ''/x'', run_item ''y'' ''/y''],
        ls_total = 3\<rparr>)"
    unfolding four
    using recursive_listing_each_subdirectory
            [where vfs = sample_vfs and fs = twin_fs and dp = "''/''" and sc = "JStr ''run''"
               and n = 0
               and result = "\<lparr>ls_path = JStr ''/'', ls_scope = JStr ''run'',
                   ls_files = [run_item ''top.txt'' ''/top.txt''],
                   ls_directories = [run_item ''x'' ''/x'', run_item ''y'' ''/y''],
                   ls_total = 3\<rparr>"] t0 tx ty fx fy
    by simp
  have n0: "listFiles sample_vfs nested_fs (JStr ''/'') (JStr ''run'') =
     Inr \<lparr>ls_path = JStr ''/'', ls_scope = JStr ''run'', ls_files = [],
           ls_directories = [run_item ''sub'' ''/sub''], ls_total = 1\<rparr>"
    by code_simp
  have ns: "flat sample_vfs nested_fs (JStr ''run'') (run_item ''sub'' ''/sub'')" by code_simp
  have fs: "subdirectory_files sample_vfs nested_fs (JStr ''run'') (run_item ''sub'' ''/sub'')
              = [run_item ''f.txt'' ''/sub/f.txt'']"
    by code_simp
  have three: "(3::nat) = Suc (Suc (length [run_item ''sub'' ''/sub''] + 0))" by simp
  have N: "tool_listFiles 3 sample_vfs nested_fs
       [''path'' \<mapsto> JStr ''/'', ''scope'' \<mapsto> JStr ''run'', ''recursive'' \<mapsto> JBool True] =
     Some (ListOk
       \<lparr>ls_path = JStr ''/'', ls_scope = JStr ''run'',
        ls_files = [run_item ''f.txt'' ''/sub/f.txt''],
        ls_directories = [run_item ''sub'' ''/sub''],
        ls_total = 1\<rparr>)"
    unfolding three
    using recursive_listing_each_subdirectory
            [where vfs = sample_vfs and fs = nested_fs and dp = "''/''" and sc = "JStr ''run''"
               and n = 0
               and result = "\<lparr>ls_path = JStr ''/'', ls_scope = JStr ''run'', ls_files = [],
                   ls_directories = [run_item ''sub'' ''/sub''], ls_total = 1\<rparr>"] n0 ns fs
    by simp
  have D: "(case tool_listFiles 9 sample_vfs deep_fs
          [''path'' \<mapsto> JStr ''/'', ''scope'' \<mapsto> JStr ''run'', ''recursive'' \<mapsto> JBool True] of
        Some (ListOk r) \<Rightarrow>
          run_item ''f.txt'' ''/a/b/f.txt'' \<in> set (ls_files r)
          \<and> set (ls_directories r) = {run_item ''a'' ''/a'', run_item ''b'' ''/a/b''}
      | other \<Rightarrow> False)"
    by code_simp
  show ?thesis using t0 tx ty T n0 ns N D by simp
qed

text \<open>
  Claim C7 as stated fails: in that scenario the collection \<open>files\<close> holds the
  nested file only; the subdirectory is in \<open>directories\<close>.
\<close>

theorem recursive_listing_counterexample:
  "map it_name (case tool_listFiles 3 sample_vfs nested_fs
       [''path'' \<mapsto> JStr ''/'', ''scope'' \<mapsto> JStr ''run'', ''recursive'' \<mapsto> JBool True] of
     Some (ListOk r) \<Rightarrow> ls_files r | _ \<Rightarrow> []) = [''f.txt'']
   \<and> map it_name (case tool_listFiles 3 sample_vfs nested_fs
       [''path'' \<mapsto> JStr ''/'', ''scope'' \<mapsto> JStr ''run'', ''recursive'' \<mapsto> JBool True] of
     Some (ListOk r) \<Rightarrow> ls_directories r | _ \<Rightarrow> []) = [''sub'']"
  by code_simp


text \<open>
  Two levels down the loop meets \<open>/a/b\<close> twice: once inside the call for \<open>/a\<close>,
  and once more in the outer loop after that call has appended it to the array
  being traversed. The file below it is then listed twice.
\<close>

lemma recursive_listing_repeats_nested_file:
  "(case tool_listFiles 9 sample_vfs deep_fs
       [''path'' \<mapsto> JStr ''/'', ''scope'' \<mapsto> JStr ''run'', ''recursive'' \<mapsto> JBool True] of
     Some (ListOk r) \<Rightarrow> (map it_path (ls_files r), map it_path (ls_directories r))
   | _ \<Rightarrow> ([], []))
   = ([''/a/b/f.txt'', ''/a/b/f.txt''], [''/a'', ''/a/b''])"
  by code_simp

end
